theory Spec2Isabelle
  imports Main
begin

section \<open>Values shared by the server utilities and the field components\<close>

text \<open>
  Documents, field values, preferences and permissions are plain JSON-like JavaScript
  values. \<open>JUndefined\<close> is JavaScript's \<open>undefined\<close>, \<open>JNull\<close> is \<open>null\<close>; an object is the
  list of its own enumerable properties in enumeration order.
\<close>

datatype json =
    JUndefined
  | JNull
  | JBool bool
  | JNum int
  | JStr string
  | JArr "json list"
  | JObj "(string \<times> json) list"

text \<open>A thrown JavaScript error value: its \<open>name\<close> and its \<open>message\<close>.\<close>

datatype js_error = JsError (err_name: string) (err_message: string)

definition Error :: "string \<Rightarrow> js_error" where
  "Error msg = JsError ''Error'' msg"

definition TypeError :: "string \<Rightarrow> js_error" where
  "TypeError msg = JsError ''TypeError'' msg"

text \<open>Truthiness of an optional string (\<open>undefined\<close> and the empty string are falsy).\<close>

definition truthy_str :: "string option \<Rightarrow> bool" where
  "truthy_str s = (case s of None \<Rightarrow> False | Some x \<Rightarrow> x \<noteq> [])"

text \<open>\<open>a || b\<close> on optional strings.\<close>

definition js_or :: "string option \<Rightarrow> string option \<Rightarrow> string option" where
  "js_or a b = (if truthy_str a then a else b)"

section \<open>The blocks field component\<close>

text \<open>
  The part of the field configuration the component destructures from \<open>props.field\<close>:
  \<open>name\<close>, \<open>admin.readOnly\<close>, \<open>maxRows\<close>, \<open>minRows\<close> (bound to \<open>minRowsProp\<close>) and
  \<open>required\<close>; a property that is \<open>undefined\<close> is \<open>None\<close>.
\<close>

record blocks_field =
  name :: string
  admin_readOnly :: bool
  maxRows :: "nat option"
  minRowsProp :: "nat option"
  required :: "bool option"

text \<open>
  The result of a validation function: \<open>true\<close>, or the error message.
\<close>

datatype validate_result = VTrue | VMessage string

text \<open>
  The options object handed to a validation function. The three keys the component
  overrides are fields of their own; every other key the caller supplied is in \<open>vo_rest\<close>.
\<close>

record validate_options =
  vo_maxRows :: "nat option"
  vo_minRows :: "nat option"
  vo_required :: "bool option"
  vo_rest :: json

record blocks_props =
  field :: blocks_field
  path :: string
  schemaPath :: "string list"
  readOnly :: bool
  validate :: "(json \<Rightarrow> validate_options \<Rightarrow> validate_result) option"

text \<open>\<open>config.localization\<close>: \<open>false\<close> or absent is \<open>None\<close>.\<close>

record localization_config =
  fallback :: bool
  defaultLocale :: "string option"

text \<open>A row of the field's \<open>rows\<close> list as \<open>useField\<close> returns it.\<close>

record row =
  row_id :: string
  blockType :: string

text \<open>The argument object of the form context's \<open>addFieldRow\<close>.\<close>

record add_field_row_args =
  afr_data :: json
  afr_path :: string
  afr_schemaPath :: "string list"

text \<open>
  What the component reads from its hooks: the locale code (\<open>useLocale\<close>), the
  localization configuration (\<open>useConfig\<close>), the field's rows and the form flags
  (\<open>useField\<close>), and the form context's \<open>getDataByPath\<close> and \<open>addFieldRow\<close> (\<open>useForm\<close>).
  \<open>addFieldRow\<close> is asynchronous: \<open>None\<close> is a resolved promise, \<open>Some e\<close> a rejection.
\<close>

record blocks_ctx =
  localeCode :: string
  localization :: "localization_config option"
  rows :: "row list"
  formProcessing :: bool
  formInitializing :: bool
  getDataByPath :: "string \<Rightarrow> json"
  addFieldRow :: "add_field_row_args \<Rightarrow> js_error option"

text \<open>\<open>const minRows = (minRowsProp ?? required) ? 1 : 0\<close>\<close>

definition minRows :: "blocks_field \<Rightarrow> nat" where
  "minRows f =
     (if (case minRowsProp f of
            Some n \<Rightarrow> n \<noteq> 0
          | None \<Rightarrow> (case required f of Some b \<Rightarrow> b | None \<Rightarrow> False))
      then 1 else 0)"

text \<open>
  \<open>editingDefaultLocale\<close>: with localization and fallback configured, whether the locale
  being edited is \<open>localization.defaultLocale || 'en'\<close>; otherwise \<open>true\<close>.
\<close>

definition defaultLocaleCode :: "localization_config \<Rightarrow> string" where
  "defaultLocaleCode l =
     (case defaultLocale l of Some d \<Rightarrow> if d \<noteq> [] then d else ''en'' | None \<Rightarrow> ''en'')"

definition editingDefaultLocale :: "blocks_ctx \<Rightarrow> bool" where
  "editingDefaultLocale ctx =
     (case localization ctx of
        Some l \<Rightarrow> if fallback l then localeCode ctx = defaultLocaleCode l else True
      | None \<Rightarrow> True)"

text \<open>\<open>{ ...options, maxRows, minRows, required }\<close>\<close>

definition validateOptions :: "blocks_field \<Rightarrow> validate_options \<Rightarrow> validate_options" where
  "validateOptions f options =
     options\<lparr>vo_maxRows := maxRows f, vo_minRows := Some (minRows f), vo_required := required f\<rparr>"

text \<open>
  \<open>memoizedValidate(value, options)\<close>. The result \<open>None\<close> is \<open>undefined\<close>: the function
  falls off its end when \<open>validate\<close> is not a function.
\<close>

definition memoizedValidate ::
  "blocks_props \<Rightarrow> blocks_ctx \<Rightarrow> json \<Rightarrow> validate_options \<Rightarrow> validate_result option" where
  "memoizedValidate props ctx v options =
     (if \<not> editingDefaultLocale ctx \<and> v = JNull then Some VTrue
      else (case validate props of
              Some vf \<Rightarrow> Some (vf v (validateOptions (field props) options))
            | None \<Rightarrow> None))"

text \<open>Decimal rendering of a number in a template string.\<close>

fun show_nat :: "nat \<Rightarrow> string" where
  "show_nat n =
     (if n < 10 then [''0123456789'' ! n]
      else show_nat (n div 10) @ [''0123456789'' ! (n mod 10)])"

declare show_nat.simps [simp del]

text \<open>
  The array spread \<open>[...currentData, newRow]\<close> iterates \<open>currentData\<close>: an array yields
  its elements, a string its characters, and any other value is not iterable
  (a \<open>TypeError\<close>).
\<close>

definition spread :: "json \<Rightarrow> js_error + json list" where
  "spread v =
     (case v of
        JArr xs \<Rightarrow> Inr xs
      | JStr s \<Rightarrow> Inr (map (\<lambda>c. JStr [c]) s)
      | _ \<Rightarrow> Inl (TypeError ''currentData is not iterable''))"

text \<open>The calls \<open>addRow\<close> makes, in the order it makes them.\<close>

datatype call =
    AddFieldRow add_field_row_args
  | SetModified bool
  | ScrollToID string

text \<open>
  \<open>addRow(rowIndex, blockType)\<close>; \<open>uuid\<close> is the identifier \<open>uuid()\<close> returns. The result is
  the error the promise rejects with, or the calls made when it resolves.
\<close>

definition addRow ::
  "blocks_props \<Rightarrow> blocks_ctx \<Rightarrow> string \<Rightarrow> nat \<Rightarrow> string \<Rightarrow> js_error + call list" where
  "addRow props ctx uuid rowIndex blockType' =
     (let newRow = JObj [(''id'', JStr uuid), (''blockType'', JStr blockType')];
          currentData = getDataByPath ctx (path props)
      in case spread currentData of
           Inl e \<Rightarrow> Inl e
         | Inr items \<Rightarrow>
             (let args = \<lparr>afr_data = JObj [(name (field props), JArr (items @ [newRow]))],
                          afr_path = path props,
                          afr_schemaPath = schemaPath props\<rparr>
              in case addFieldRow ctx args of
                   Some e \<Rightarrow> Inl e
                 | None \<Rightarrow>
                     Inr [AddFieldRow args,
                          SetModified True,
                          ScrollToID (path props @ ''-row-'' @ show_nat (rowIndex + 1))]))"

text \<open>\<open>const hasMaxRows = maxRows && rows.length >= maxRows\<close>, read as a condition.\<close>

definition hasMaxRows :: "blocks_props \<Rightarrow> blocks_ctx \<Rightarrow> bool" where
  "hasMaxRows props ctx =
     (case maxRows (field props) of
        Some n \<Rightarrow> n \<noteq> 0 \<and> length (rows ctx) \<ge> n
      | None \<Rightarrow> False)"

text \<open>\<open>const disabled = readOnlyFromProps || formProcessing || formInitializing\<close>\<close>

definition disabled :: "blocks_props \<Rightarrow> blocks_ctx \<Rightarrow> bool" where
  "disabled props ctx =
     ((readOnly props \<or> admin_readOnly (field props)) \<or> formProcessing ctx \<or> formInitializing ctx)"

text \<open>
  The condition \<open>!disabled && !hasMaxRows\<close> under which the drawer toggler and the blocks
  drawer (the controls that call \<open>addRow\<close>) are rendered below the rows.
\<close>

definition showAddRowControls :: "blocks_props \<Rightarrow> blocks_ctx \<Rightarrow> bool" where
  "showAddRowControls props ctx = (\<not> disabled props ctx \<and> \<not> hasMaxRows props ctx)"

text \<open>
  The insertion the specification describes for \<open>addRow(path, newRowId, insertAtIndex)\<close>:
  the new row at the given index, the rows at or after it one position later.
\<close>

definition spec_insertAt :: "nat \<Rightarrow> 'a \<Rightarrow> 'a list \<Rightarrow> 'a list" where
  "spec_insertAt i x xs = take i xs @ [x] @ drop i xs"

section \<open>Building form state on the server\<close>

text \<open>\<open>Array.prototype.join('.')\<close> on an array of strings.\<close>

fun join_dot :: "string list \<Rightarrow> string" where
  "join_dot [] = []"
| "join_dot [x] = x"
| "join_dot (x # y # ys) = x @ ''.'' @ join_dot (y # ys)"

text \<open>A string between double quotes, as the template strings of the error messages have it.\<close>

definition quoted :: "string \<Rightarrow> string" where
  "quoted s = CHR 0x22 # s @ [CHR 0x22]"

text \<open>An optional slug as the text \<open>join\<close> gives it (\<open>undefined\<close> joins as the empty string).\<close>

definition slug_text :: "string option \<Rightarrow> string" where
  "slug_text s = (case s of Some x \<Rightarrow> x | None \<Rightarrow> [])"

text \<open>Truthiness of a JSON-like value.\<close>

definition truthy_json :: "json \<Rightarrow> bool" where
  "truthy_json v =
     (case v of
        JUndefined \<Rightarrow> False
      | JNull \<Rightarrow> False
      | JBool b \<Rightarrow> b
      | JNum n \<Rightarrow> n \<noteq> 0
      | JStr s \<Rightarrow> s \<noteq> []
      | _ \<Rightarrow> True)"

text \<open>The locale context of a request (\<open>req.i18n\<close>).\<close>

record i18n_client =
  i18n_language :: string

text \<open>
  A value of the field schema map: an array of fields, or a field, block, tab or entity
  configuration object. Of an object the code reads \<open>type\<close> and \<open>fields\<close> (\<open>None\<close> when the
  object has no such property); its other properties are the third argument.
\<close>

datatype schema_entry =
    EntryArray "schema_entry list"
  | EntryObject "string option" "schema_entry list option" json

text \<open>
  \<open>FieldSchemaMap\<close> is a JavaScript \<open>Map\<close>: its entries in insertion order. \<open>keys()\<close> is
  \<open>map fst\<close>, \<open>get\<close> is \<open>map_of\<close>.
\<close>

type_synonym field_schema_map = "(string \<times> schema_entry) list"

text \<open>
  One entry of a form state: the two properties \<open>buildFormState\<close> reads, the value, and
  all other properties (\<open>fs_rest\<close>). \<open>requiresRender\<close> is read for its truthiness;
  \<open>schemaPath\<close> is the array the code joins with dots.
\<close>

record field_state =
  requiresRender :: bool
  fs_schemaPath :: "string list"
  fs_value :: json
  fs_rest :: json

text \<open>
  \<open>FormState\<close> is an object keyed by path: its properties in enumeration order, each
  holding a field state. Reading a property is \<open>map_of\<close>.
\<close>

type_synonym form_state = "(string \<times> field_state) list"

text \<open>
  Assigning a property of an object: an existing property keeps its place, a new one
  goes last.
\<close>

fun assign_prop :: "string \<Rightarrow> 'a \<Rightarrow> (string \<times> 'a) list \<Rightarrow> (string \<times> 'a) list" where
  "assign_prop k v [] = [(k, v)]"
| "assign_prop k v ((k', v') # ps) =
     (if k' = k then (k, v) # ps else (k', v') # assign_prop k v ps)"

record client_user =
  user_collection :: "string option"
  user_rest :: json

text \<open>What an access function can read of the request: the user and the locale context.\<close>

record req_info =
  ri_user :: "client_user option"
  ri_i18n :: i18n_client

text \<open>
  \<open>payload.collections[slug].config\<close>: the \<open>access.admin\<close> function when there is one
  (asynchronous: it may reject), and whether \<open>upload\<close> is truthy.
\<close>

record collection_config =
  access_admin :: "(req_info \<Rightarrow> js_error + bool) option"
  upload :: bool

record sanitized_config =
  admin_user :: string
  config_rest :: json

text \<open>
  \<open>req.payload\<close>: the configuration, the collections by slug, and \<open>find\<close> on a collection
  (the documents found, or the error it rejects with).
\<close>

record payload_inst =
  config :: sanitized_config
  collections :: "string \<rightharpoonup> collection_config"
  payload_find :: "string \<Rightarrow> js_error + json list"

record payload_request =
  user :: "client_user option"
  i18n :: i18n_client
  payload :: payload_inst

record build_form_state_args =
  a_id :: "string option"
  a_collectionSlug :: "string option"
  a_data :: json
  a_docPermissions :: json
  a_docPreferences :: json
  a_formState :: "form_state option"
  a_globalSlug :: "string option"
  a_operation :: "string option"
  a_path :: "string list option"
  a_renderFields :: "bool option"
  a_req :: payload_request
  a_returnLockStatus :: bool
  a_schemaPath :: "string list option"
  a_updateLastEdited :: bool

text \<open>The argument object of \<open>getFieldSchemaMap\<close> and of \<open>buildFieldSchemaMap\<close>.\<close>

record schema_map_args =
  g_collectionSlug :: "string option"
  g_config :: sanitized_config
  g_globalSlug :: "string option"
  g_i18n :: i18n_client

record to_form_state_args =
  f_id :: "string option"
  f_collectionSlug :: "string option"
  f_data :: json
  f_fields :: "schema_entry list"
  f_operation :: "string option"
  f_parentPath :: "string list"
  f_parentSchemaPath :: "string list"
  f_preferences :: json
  f_req :: payload_request
  f_schemaPathsToRender :: "string list"

record locking_args =
  l_id :: "string option"
  l_collectionSlug :: "string option"
  l_globalSlug :: "string option"
  l_req :: payload_request
  l_updateLastEdited :: bool

record attach_args =
  t_config :: sanitized_config
  t_fieldSchemaMap :: field_schema_map
  t_i18n :: i18n_client
  t_payload :: payload_inst
  t_permissions :: json
  t_schemaPathsToRender :: "string list"

record locked_state =
  isLocked :: bool
  lastEditedAt :: string
  lock_user :: json

text \<open>
  The process environment and the functions \<open>buildFormState.ts\<close> imports from other
  modules. They are parameters of the model: \<open>NODE_ENV\<close> is \<open>process.env.NODE_ENV\<close>;
  \<open>buildFieldSchemaMap\<close> returns the \<open>fieldSchemaMap\<close> of its result;
  \<open>fieldSchemasToFormState\<close> and \<open>handleFormStateLocking\<close> are asynchronous and may reject;
  \<open>attachComponentsToFormState\<close> mutates the form state it is given, so it is a function
  from that form state to the mutated one; \<open>formatErrors\<close> turns an error into an
  \<open>ErrorResult\<close> object.
\<close>

record env =
  NODE_ENV :: "string option"
  buildFieldSchemaMap :: "schema_map_args \<Rightarrow> field_schema_map"
  reduceFieldsToValues :: "form_state \<Rightarrow> bool \<Rightarrow> json"
  fieldSchemasToFormState :: "to_form_state_args \<Rightarrow> js_error + form_state"
  handleFormStateLocking :: "locking_args \<Rightarrow> js_error + locked_state option"
  attachComponentsToFormState :: "attach_args \<Rightarrow> form_state \<Rightarrow> form_state"
  formatErrors :: "js_error \<Rightarrow> json"

text \<open>
  The module variable \<open>cachedFieldMap\<close>: \<open>null\<close>, or a \<open>Map\<close> from
  \<open>collectionSlug || globalSlug\<close> to the entity's field schema map.
\<close>

type_synonym field_map_cache = "(string option \<rightharpoonup> field_schema_map) option"

text \<open>\<open>getFieldSchemaMap(args)\<close>: the map returned and the module variable afterwards.\<close>

definition getFieldSchemaMap ::
  "env \<Rightarrow> schema_map_args \<Rightarrow> field_map_cache \<Rightarrow> field_schema_map \<times> field_map_cache" where
  "getFieldSchemaMap e args cachedFieldMap =
     (let notDev = (NODE_ENV e \<noteq> Some ''development'');
          key = js_or (g_collectionSlug args) (g_globalSlug args);
          cache1 = (if notDev
                    then (case cachedFieldMap of None \<Rightarrow> Some Map.empty | Some m \<Rightarrow> Some m)
                    else cachedFieldMap);
          cachedEntityFieldMap =
            (if notDev then (case cache1 of Some m \<Rightarrow> m key | None \<Rightarrow> None) else None)
      in case cachedEntityFieldMap of
           Some cached \<Rightarrow> (cached, cache1)
         | None \<Rightarrow>
             (let entityFieldMap = buildFieldSchemaMap e args
              in (entityFieldMap,
                  if notDev
                  then (case cache1 of
                          Some m \<Rightarrow> Some (m(key \<mapsto> entityFieldMap))
                        | None \<Rightarrow> None)
                  else cache1)))"

text \<open>
  The module variable after a sequence of calls of \<open>getFieldSchemaMap\<close>, each on the
  state the one before it left.
\<close>

fun cacheAfterCalls :: "env \<Rightarrow> schema_map_args list \<Rightarrow> field_map_cache \<Rightarrow> field_map_cache" where
  "cacheAfterCalls e [] c = c"
| "cacheAfterCalls e (a # as) c = cacheAfterCalls e as (snd (getFieldSchemaMap e a c))"

text \<open>
  The loop \<open>for (const key in formState)\<close> that pushes the joined \<open>schemaPath\<close> of every
  entry whose \<open>requiresRender\<close> is set; \<open>acc\<close> is \<open>schemaPathsToRender\<close> so far.
\<close>

fun pushRequiresRender :: "form_state \<Rightarrow> string list \<Rightarrow> string list \<Rightarrow> string list" where
  "pushRequiresRender fs [] acc = acc"
| "pushRequiresRender fs (key # keys) acc =
     (case map_of fs key of
        Some fld \<Rightarrow>
          if requiresRender fld
          then pushRequiresRender fs keys (acc @ [join_dot (fs_schemaPath fld)])
          else pushRequiresRender fs keys acc
      | None \<Rightarrow> pushRequiresRender fs keys acc)"

text \<open>The array \<open>schemaPathsToRender\<close> as \<open>buildFormState\<close> fills it.\<close>

definition schemaPathsToRender ::
  "field_schema_map \<Rightarrow> bool \<Rightarrow> form_state option \<Rightarrow> string list" where
  "schemaPathsToRender fieldSchemaMap renderFields formState =
     (if renderFields then map fst fieldSchemaMap
      else (case formState of
              Some fs \<Rightarrow> pushRequiresRender fs (map fst fs) []
            | None \<Rightarrow> []))"

text \<open>
  The condition under which \<open>buildFormState\<close> rejects the entry found for the schema
  path: no non-empty \<open>fields\<close>, and a \<open>type\<close> other than \<open>blocks\<close>.
\<close>

definition lacksSubfields :: "schema_entry \<Rightarrow> bool" where
  "lacksSubfields c =
     (case c of
        EntryArray xs \<Rightarrow> False
      | EntryObject ty flds rest \<Rightarrow>
          (flds = None \<or> flds = Some []) \<and> ty \<noteq> None \<and> ty \<noteq> Some ''blocks'')"

text \<open>The \<open>fields\<close> handed to \<open>fieldSchemasToFormState\<close>.\<close>

definition fieldsOf :: "schema_entry \<Rightarrow> schema_entry list" where
  "fieldsOf c =
     (case c of
        EntryArray xs \<Rightarrow> xs
      | EntryObject ty flds rest \<Rightarrow> (case flds of Some fl \<Rightarrow> fl | None \<Rightarrow> [c]))"

text \<open>
  "Maintain form state of auth / upload fields": with a collection slug, an incoming
  form state, a truthy \<open>upload\<close> configuration and an incoming \<open>file\<close> entry, the result's
  \<open>file\<close> property is assigned the incoming entry.
\<close>

definition maintainUploadState ::
  "payload_inst \<Rightarrow> string option \<Rightarrow> form_state option \<Rightarrow> form_state \<Rightarrow> form_state" where
  "maintainUploadState pl collectionSlug formState formStateResult =
     (case formState of
        Some fs \<Rightarrow>
          if truthy_str collectionSlug
          then (case (collections pl (slug_text collectionSlug), map_of fs ''file'') of
                  (Some c, Some fileState) \<Rightarrow>
                     if upload c then assign_prop ''file'' fileState formStateResult
                     else formStateResult
                | _ \<Rightarrow> formStateResult)
          else formStateResult
      | None \<Rightarrow> formStateResult)"

record build_success =
  lockedState :: "locked_state option"
  state :: form_state

text \<open>
  The destructuring default
  \<open>schemaPath = collectionSlug ? [collectionSlug] : [globalSlug]\<close>.
\<close>

definition schemaPathOf :: "build_form_state_args \<Rightarrow> string list" where
  "schemaPathOf args =
     (case a_schemaPath args of
        Some sp \<Rightarrow> sp
      | None \<Rightarrow> if truthy_str (a_collectionSlug args)
                then [slug_text (a_collectionSlug args)]
                else [slug_text (a_globalSlug args)])"

text \<open>The argument object \<open>buildFormState\<close> passes to \<open>getFieldSchemaMap\<close>.\<close>

definition schemaMapArgs :: "build_form_state_args \<Rightarrow> schema_map_args" where
  "schemaMapArgs args =
     \<lparr>g_collectionSlug = a_collectionSlug args,
      g_config = config (payload (a_req args)),
      g_globalSlug = a_globalSlug args,
      g_i18n = i18n (a_req args)\<rparr>"

text \<open>The destructuring defaults \<open>path = []\<close> and \<open>renderFields = false\<close>.\<close>

definition pathOf :: "build_form_state_args \<Rightarrow> string list" where
  "pathOf args = (case a_path args of Some p \<Rightarrow> p | None \<Rightarrow> [])"

definition renderFieldsOf :: "build_form_state_args \<Rightarrow> bool" where
  "renderFieldsOf args = (case a_renderFields args of Some b \<Rightarrow> b | None \<Rightarrow> False)"

text \<open>\<open>const id = collectionSlug ? idFromArgs : undefined\<close>\<close>

definition idOf :: "build_form_state_args \<Rightarrow> string option" where
  "idOf args = (if truthy_str (a_collectionSlug args) then a_id args else None)"

text \<open>
  \<open>isEntitySchema\<close>: the schema path is the one segment that is the collection's or the
  global's slug.
\<close>

definition isEntitySchema :: "build_form_state_args \<Rightarrow> bool" where
  "isEntitySchema args =
     (length (schemaPathOf args) = 1
      \<and> (Some (hd (schemaPathOf args)) = a_collectionSlug args
         \<or> Some (hd (schemaPathOf args)) = a_globalSlug args))"

text \<open>
  The argument object of the call of \<open>fieldSchemasToFormState\<close>: \<open>data\<close> is reduced from the
  incoming form state when there is one, \<open>fields\<close> come from the entry found for the
  schema path, the parent paths drop their last segment unless the schema path is the
  entity's (\<open>slice(0, -1)\<close>), and \<open>preferences\<close> is
  \<open>docPreferences || { fields: {} }\<close>.
\<close>

definition toFormStateArgs ::
  "env \<Rightarrow> build_form_state_args \<Rightarrow> field_schema_map \<Rightarrow> schema_entry
     \<Rightarrow> to_form_state_args" where
  "toFormStateArgs e args fieldSchemaMap fieldOrEntityConfig =
     \<lparr>f_id = idOf args,
      f_collectionSlug = a_collectionSlug args,
      f_data = (case a_formState args of
                  Some fs \<Rightarrow> reduceFieldsToValues e fs True
                | None \<Rightarrow> a_data args),
      f_fields = fieldsOf fieldOrEntityConfig,
      f_operation = a_operation args,
      f_parentPath = (if isEntitySchema args then pathOf args else butlast (pathOf args)),
      f_parentSchemaPath =
        (if isEntitySchema args then schemaPathOf args else butlast (schemaPathOf args)),
      f_preferences = (if truthy_json (a_docPreferences args)
                       then a_docPreferences args
                       else JObj [(''fields'', JObj [])]),
      f_req = a_req args,
      f_schemaPathsToRender =
        schemaPathsToRender fieldSchemaMap (renderFieldsOf args) (a_formState args)\<rparr>"

text \<open>
  \<open>lockedStateResult\<close>: the result of \<open>handleFormStateLocking\<close> when \<open>returnLockStatus\<close> is
  set, \<open>undefined\<close> otherwise.
\<close>

definition lockedStateOf ::
  "env \<Rightarrow> build_form_state_args \<Rightarrow> js_error + locked_state option" where
  "lockedStateOf e args =
     (if a_returnLockStatus args
      then handleFormStateLocking e
             \<lparr>l_id = idOf args, l_collectionSlug = a_collectionSlug args,
              l_globalSlug = a_globalSlug args, l_req = a_req args,
              l_updateLastEdited = a_updateLastEdited args\<rparr>
      else Inr None)"

text \<open>The argument object of the call of \<open>attachComponentsToFormState\<close>.\<close>

definition attachArgs :: "build_form_state_args \<Rightarrow> field_schema_map \<Rightarrow> attach_args" where
  "attachArgs args fieldSchemaMap =
     \<lparr>t_config = config (payload (a_req args)),
      t_fieldSchemaMap = fieldSchemaMap,
      t_i18n = i18n (a_req args),
      t_payload = payload (a_req args),
      t_permissions = a_docPermissions args,
      t_schemaPathsToRender =
        schemaPathsToRender fieldSchemaMap (renderFieldsOf args) (a_formState args)\<rparr>"

text \<open>
  \<open>buildFormState(args)\<close>: the value the promise resolves with or the error it rejects
  with, and the module variable \<open>cachedFieldMap\<close> afterwards. In the order of the source:
  the slug check, the schema map, the lookup of the schema path, the check for
  subfields, \<open>fieldSchemasToFormState\<close>, the upload entry, the lock status, and
  \<open>attachComponentsToFormState\<close> on the form state built.
\<close>

definition buildFormState ::
  "env \<Rightarrow> build_form_state_args \<Rightarrow> field_map_cache
     \<Rightarrow> (js_error + build_success) \<times> field_map_cache" where
  "buildFormState e args cachedFieldMap =
     (if \<not> truthy_str (a_collectionSlug args) \<and> \<not> truthy_str (a_globalSlug args)
      then (Inl (Error ''Either collectionSlug or globalSlug must be provided''),
            cachedFieldMap)
      else
        (case getFieldSchemaMap e (schemaMapArgs args) cachedFieldMap of
           (fieldSchemaMap, cache') \<Rightarrow>
             (case map_of fieldSchemaMap (join_dot (schemaPathOf args)) of
                None \<Rightarrow>
                  (Inl (Error (''Could not find '' @ quoted (join_dot (schemaPathOf args))
                                @ '' in the fieldSchemaMap'')), cache')
              | Some fieldOrEntityConfig \<Rightarrow>
                  if lacksSubfields fieldOrEntityConfig
                  then (Inl (Error (''The field found in fieldSchemaMap for ''
                                    @ quoted (join_dot (schemaPathOf args))
                                    @ '' does not contain any subfields.'')), cache')
                  else
                    (case fieldSchemasToFormState e
                            (toFormStateArgs e args fieldSchemaMap fieldOrEntityConfig) of
                       Inl err \<Rightarrow> (Inl err, cache')
                     | Inr formStateResult \<Rightarrow>
                         (case lockedStateOf e args of
                            Inl err \<Rightarrow> (Inl err, cache')
                          | Inr lockedStateResult \<Rightarrow>
                              (Inr \<lparr>lockedState = lockedStateResult,
                                    state =
                                      attachComponentsToFormState e
                                        (attachArgs args fieldSchemaMap)
                                        (maintainUploadState (payload (a_req args))
                                           (a_collectionSlug args) (a_formState args)
                                           formStateResult)\<rparr>,
                               cache'))))))"

text \<open>
  What a handler call does to the world besides its result, in order: calls of an
  \<open>access.admin\<close> function, of \<open>payload.find\<close>, of \<open>buildFormState\<close>, and of
  \<open>payload.logger.error\<close>.
\<close>

datatype event =
    AdminAccessCalled string
  | FindCalled string
  | BuildFormStateCalled
  | LoggerError js_error string

record server_state =
  cachedFieldMap :: field_map_cache
  events :: "event list"

text \<open>
  \<open>req.user?.collection\<close> and \<open>req.payload.config.admin.user\<close>, and the access check at
  the head of the handler's \<open>try\<close> block: the calls it makes, and the error it throws
  (\<open>Inl\<close>) or nothing (\<open>Inr\<close>).
\<close>

definition incomingUserSlug :: "payload_request \<Rightarrow> string option" where
  "incomingUserSlug req = (case user req of Some u \<Rightarrow> user_collection u | None \<Rightarrow> None)"

definition adminUserSlug :: "payload_request \<Rightarrow> string" where
  "adminUserSlug req = admin_user (config (payload req))"

definition accessCheck :: "payload_request \<Rightarrow> event list \<times> (js_error + unit)" where
  "accessCheck req =
     (if truthy_str (incomingUserSlug req)
      then (case collections (payload req) (slug_text (incomingUserSlug req)) of
              None \<Rightarrow> ([], Inl (TypeError ''Cannot read properties of undefined''))
            | Some c \<Rightarrow>
                (case access_admin c of
                   Some adminAccessFunction \<Rightarrow>
                     ([AdminAccessCalled (slug_text (incomingUserSlug req))],
                      case adminAccessFunction \<lparr>ri_user = user req, ri_i18n = i18n req\<rparr> of
                        Inl err \<Rightarrow> Inl err
                      | Inr canAccessAdmin \<Rightarrow>
                          if \<not> canAccessAdmin then Inl (Error ''Unauthorized'') else Inr ())
                 | None \<Rightarrow>
                     ([], if adminUserSlug req \<noteq> slug_text (incomingUserSlug req)
                          then Inl (Error ''Unauthorized'') else Inr ())))
      else ([FindCalled (adminUserSlug req)],
            case payload_find (payload req) (adminUserSlug req) of
              Inl err \<Rightarrow> Inl err
            | Inr docs \<Rightarrow> if docs \<noteq> [] then Inl (Error ''Unauthorized'') else Inr ()))"

text \<open>
  \<open>BuildFormStateResult\<close>: the success result, the \<open>{ message }\<close> object, the \<open>ErrorResult\<close>
  of \<open>formatErrors\<close>, or \<open>null\<close>.
\<close>

datatype build_form_state_result =
    SuccessResult build_success
  | MessageResult string
  | FormattedErrors json
  | NullResult

text \<open>\<open>buildFormStateHandler(args)\<close>: its result and the server state afterwards.\<close>

definition buildFormStateHandler ::
  "env \<Rightarrow> build_form_state_args \<Rightarrow> server_state \<Rightarrow> build_form_state_result \<times> server_state" where
  "buildFormStateHandler e args st =
     (let req = a_req args;
          checked = accessCheck req;
          st1 = st\<lparr>events := events st @ fst checked\<rparr>;
          tried = (case snd checked of
                     Inl err \<Rightarrow> (Inl err, st1)
                   | Inr u \<Rightarrow>
                       (let built = buildFormState e args (cachedFieldMap st1)
                        in (fst built,
                            st1\<lparr>cachedFieldMap := snd built,
                                events := events st1 @ [BuildFormStateCalled]\<rparr>)))
      in case fst tried of
           Inr res \<Rightarrow> (SuccessResult res, snd tried)
         | Inl err \<Rightarrow>
             (let st3 = (snd tried)\<lparr>events := events (snd tried)
                           @ [LoggerError err ''There was an error building form state'']\<rparr>
              in if err_message err = ''Could not find field schema for given path''
                 then (MessageResult (err_message err), st3)
                 else if err_message err = ''Unauthorized''
                 then (NullResult, st3)
                 else (FormattedErrors (formatErrors e err), st3)))"

section \<open>Example requests\<close>

text \<open>
  A concrete environment, payload instance and request, used to run the definitions. The
  environment's \<open>buildFieldSchemaMap\<close> builds a one-entry map whose entry records the
  language it was built for; its \<open>fieldSchemasToFormState\<close> computes a \<open>file\<close> and a
  \<open>title\<close> entry; its \<open>attachComponentsToFormState\<close> attaches nothing; its
  \<open>formatErrors\<close> keeps the message of the error. The payload has the admin collection
  \<open>users\<close>, a second auth collection \<open>customers\<close>, a collection \<open>editors\<close> whose
  \<open>access.admin\<close> function denies, and an upload collection \<open>media\<close>; \<open>find\<close>
  returns the given user documents.
\<close>

definition example_env :: env where
  "example_env =
     \<lparr>NODE_ENV = Some ''production'',
      buildFieldSchemaMap =
        (\<lambda>a. [(slug_text (js_or (g_collectionSlug a) (g_globalSlug a)),
                EntryObject None (Some [EntryObject (Some ''text'') None (JStr ''title'')])
                  (JStr (i18n_language (g_i18n a))))]),
      reduceFieldsToValues = (\<lambda>fs b. JObj (map (\<lambda>p. (fst p, fs_value (snd p))) fs)),
      fieldSchemasToFormState =
        (\<lambda>a. Inr [(''file'', \<lparr>requiresRender = False, fs_schemaPath = [''media'', ''file''],
                              fs_value = JNull, fs_rest = JObj []\<rparr>),
                  (''title'', \<lparr>requiresRender = False, fs_schemaPath = [''media'', ''title''],
                               fs_value = JStr ''t'', fs_rest = JObj []\<rparr>)]),
      handleFormStateLocking = (\<lambda>a. Inr None),
      attachComponentsToFormState = (\<lambda>a fs. fs),
      formatErrors =
        (\<lambda>err. JObj [(''errors'', JArr [JObj [(''message'', JStr (err_message err))]])])\<rparr>"

definition example_payload :: "json list \<Rightarrow> payload_inst" where
  "example_payload userDocs =
     \<lparr>config = \<lparr>admin_user = ''users'', config_rest = JNull\<rparr>,
      collections =
        [''users'' \<mapsto> \<lparr>access_admin = None, upload = False\<rparr>,
         ''customers'' \<mapsto> \<lparr>access_admin = None, upload = False\<rparr>,
         ''editors'' \<mapsto> \<lparr>access_admin = Some (\<lambda>r. Inr False), upload = False\<rparr>,
         ''media'' \<mapsto> \<lparr>access_admin = None, upload = True\<rparr>],
      payload_find = (\<lambda>slug. Inr userDocs)\<rparr>"

definition example_request :: "string option \<Rightarrow> json list \<Rightarrow> payload_request" where
  "example_request userSlug userDocs =
     \<lparr>user = (case userSlug of
                 Some s \<Rightarrow> Some \<lparr>user_collection = Some s, user_rest = JNull\<rparr>
               | None \<Rightarrow> None),
      i18n = \<lparr>i18n_language = ''en''\<rparr>,
      payload = example_payload userDocs\<rparr>"

definition example_args ::
  "payload_request \<Rightarrow> string \<Rightarrow> string list option \<Rightarrow> form_state option
     \<Rightarrow> build_form_state_args" where
  "example_args req slug sp fs =
     \<lparr>a_id = None, a_collectionSlug = Some slug, a_data = JObj [],
      a_docPermissions = JNull, a_docPreferences = JUndefined, a_formState = fs,
      a_globalSlug = None, a_operation = Some ''update'', a_path = None,
      a_renderFields = None, a_req = req, a_returnLockStatus = False,
      a_schemaPath = sp, a_updateLastEdited = False\<rparr>"

definition example_state :: server_state where
  "example_state = \<lparr>cachedFieldMap = None, events = []\<rparr>"

text \<open>
  The same environment with a \<open>fieldSchemasToFormState\<close> that answers with one entry per
  schema path it is told to render, so that the selection shows in the state returned.
\<close>

definition example_echo_env :: env where
  "example_echo_env =
     example_env\<lparr>fieldSchemasToFormState :=
       (\<lambda>a. Inr (map (\<lambda>p. (p, \<lparr>requiresRender = False, fs_schemaPath = [],
                                    fs_value = JNull, fs_rest = JObj []\<rparr>))
                     (f_schemaPathsToRender a)))\<rparr>"

section \<open>The handler: errors and access\<close>

lemma err_message_Error [simp]: "err_message (Error msg) = msg"
  by (simp add: Error_def)

lemma buildFormState_schema_path_absent:
  assumes "truthy_str (a_collectionSlug args) \<or> truthy_str (a_globalSlug args)"
    and "map_of (fst (getFieldSchemaMap e (schemaMapArgs args) c))
           (join_dot (schemaPathOf args)) = None"
  shows "fst (buildFormState e args c)
         = Inl (Error (''Could not find '' @ quoted (join_dot (schemaPathOf args))
                       @ '' in the fieldSchemaMap''))"
  using assms by (auto simp: buildFormState_def Let_def split: prod.splits)

lemma unauthorized_message:
  "err_message (Error ''Unauthorized'') \<noteq> ''Could not find field schema for given path''"
  "err_message (Error ''Unauthorized'') = ''Unauthorized''"
  by (simp_all add: Error_def)

lemma handler_access_error:
  assumes "accessCheck (a_req args) = (evs, Inl err)"
  shows "buildFormStateHandler e args st
         = (if err_message err = ''Could not find field schema for given path''
            then MessageResult (err_message err)
            else if err_message err = ''Unauthorized'' then NullResult
            else FormattedErrors (formatErrors e err),
            st\<lparr>events := events st @ evs
                   @ [LoggerError err ''There was an error building form state'']\<rparr>)"
  using assms by (simp add: buildFormStateHandler_def Let_def)

lemma handler_access_ok:
  assumes "accessCheck (a_req args) = (evs, Inr u)"
  shows "buildFormStateHandler e args st
         = (case fst (buildFormState e args (cachedFieldMap st)) of
              Inr res \<Rightarrow>
                (SuccessResult res,
                 st\<lparr>cachedFieldMap := snd (buildFormState e args (cachedFieldMap st)),
                    events := events st @ evs @ [BuildFormStateCalled]\<rparr>)
            | Inl err \<Rightarrow>
                (if err_message err = ''Could not find field schema for given path''
                 then MessageResult (err_message err)
                 else if err_message err = ''Unauthorized'' then NullResult
                 else FormattedErrors (formatErrors e err),
                 st\<lparr>cachedFieldMap := snd (buildFormState e args (cachedFieldMap st)),
                    events := events st @ evs @ [BuildFormStateCalled]
                      @ [LoggerError err ''There was an error building form state'']\<rparr>))"
  using assms by (simp add: buildFormStateHandler_def Let_def split: sum.splits)

text \<open>
  C1. A request that passes the access check, names a collection or a global, and whose
  schema path (joined with dots) is not a key of the schema map that \<open>getFieldSchemaMap\<close>
  returns: \<open>buildFormState\<close> throws the error with the message
  \<open>Could not find "<path>" in the fieldSchemaMap\<close>, and the handler logs that error and
  returns \<open>formatErrors\<close> of it, an \<open>ErrorResult\<close> object: not \<open>null\<close>, not a form state.
  The error with its message is what \<open>formatErrors\<close> is given; the \<open>{ message }\<close> branch
  of the handler compares with another text and is not the one that answers.
\<close>

theorem handler_schema_path_absent:
  assumes "snd (accessCheck (a_req args)) = Inr ()"
    and "truthy_str (a_collectionSlug args) \<or> truthy_str (a_globalSlug args)"
    and "map_of (fst (getFieldSchemaMap e (schemaMapArgs args) (cachedFieldMap st)))
           (join_dot (schemaPathOf args)) = None"
  shows "fst (buildFormStateHandler e args st)
         = FormattedErrors
             (formatErrors e
                (Error (''Could not find '' @ quoted (join_dot (schemaPathOf args))
                        @ '' in the fieldSchemaMap'')))
         \<and> last (events (snd (buildFormStateHandler e args st)))
           = LoggerError
               (Error (''Could not find '' @ quoted (join_dot (schemaPathOf args))
                       @ '' in the fieldSchemaMap''))
               ''There was an error building form state''"
proof -
  obtain evs where ok: "accessCheck (a_req args) = (evs, Inr ())"
    using assms(1) by (cases "accessCheck (a_req args)") auto
  have built: "fst (buildFormState e args (cachedFieldMap st))
         = Inl (Error (''Could not find '' @ quoted (join_dot (schemaPathOf args))
                       @ '' in the fieldSchemaMap''))"
    using assms(2,3) by (rule buildFormState_schema_path_absent)
  show ?thesis
    by (simp add: handler_access_ok [OF ok] built quoted_def)
qed

theorem handler_schema_path_absent_witness:
  "fst (buildFormStateHandler example_env
          (example_args (example_request (Some ''users'') []) ''posts''
             (Some [''posts'', ''missing'']) None)
          example_state)
     = FormattedErrors
         (JObj [(''errors'',
            JArr [JObj [(''message'',
              JStr (''Could not find '' @ quoted ''posts.missing''
                    @ '' in the fieldSchemaMap''))]])])"
proof -
  let ?args = "example_args (example_request (Some ''users'') []) ''posts''
                 (Some [''posts'', ''missing'']) None"
  have h1: "snd (accessCheck (a_req ?args)) = Inr ()"
    by (simp add: accessCheck_def example_args_def example_request_def example_payload_def
        incomingUserSlug_def adminUserSlug_def truthy_str_def slug_text_def)
  have h2: "truthy_str (a_collectionSlug ?args) \<or> truthy_str (a_globalSlug ?args)"
    by (simp add: example_args_def truthy_str_def)
  have h3: "map_of (fst (getFieldSchemaMap example_env (schemaMapArgs ?args)
                          (cachedFieldMap example_state)))
              (join_dot (schemaPathOf ?args)) = None"
    by (simp add: getFieldSchemaMap_def Let_def schemaMapArgs_def schemaPathOf_def
        example_env_def example_args_def example_state_def js_or_def truthy_str_def
        slug_text_def)
  from handler_schema_path_absent [OF h1 h2 h3]
  show ?thesis
    by (simp add: schemaPathOf_def example_args_def example_env_def)
qed

text \<open>
  C3. Each of the three places where the access check throws \<open>Unauthorized\<close> (the
  collection's \<open>access.admin\<close> function denies; there is no such function and the user's
  collection is not the admin user collection; there is no user and the admin user
  collection has a document) makes the handler return \<open>null\<close>: a value, not the
  \<open>{ message }\<close> object and not the \<open>ErrorResult\<close> of \<open>formatErrors\<close>. The error is logged,
  and \<open>buildFormState\<close> is not called.
\<close>

theorem handler_unauthorized_returns_null:
  assumes "a_req args = req"
  shows
    "(truthy_str (incomingUserSlug req)
        \<and> collections (payload req) (slug_text (incomingUserSlug req)) = Some c
        \<and> access_admin c = Some adminAccessFunction
        \<and> adminAccessFunction \<lparr>ri_user = user req, ri_i18n = i18n req\<rparr> = Inr False
      \<longrightarrow> buildFormStateHandler e args st
          = (NullResult,
             st\<lparr>events := events st
                  @ [AdminAccessCalled (slug_text (incomingUserSlug req)),
                     LoggerError (Error ''Unauthorized'')
                       ''There was an error building form state'']\<rparr>))
     \<and> (truthy_str (incomingUserSlug req)
        \<and> collections (payload req) (slug_text (incomingUserSlug req)) = Some c
        \<and> access_admin c = None
        \<and> adminUserSlug req \<noteq> slug_text (incomingUserSlug req)
      \<longrightarrow> buildFormStateHandler e args st
          = (NullResult,
             st\<lparr>events := events st
                  @ [LoggerError (Error ''Unauthorized'')
                       ''There was an error building form state'']\<rparr>))
     \<and> (\<not> truthy_str (incomingUserSlug req)
        \<and> payload_find (payload req) (adminUserSlug req) = Inr docs \<and> docs \<noteq> []
      \<longrightarrow> buildFormStateHandler e args st
          = (NullResult,
             st\<lparr>events := events st
                  @ [FindCalled (adminUserSlug req),
                     LoggerError (Error ''Unauthorized'')
                       ''There was an error building form state'']\<rparr>))"
proof (intro conjI impI)
  assume h: "truthy_str (incomingUserSlug req)
        \<and> collections (payload req) (slug_text (incomingUserSlug req)) = Some c
        \<and> access_admin c = Some adminAccessFunction
        \<and> adminAccessFunction \<lparr>ri_user = user req, ri_i18n = i18n req\<rparr> = Inr False"
  then have "accessCheck (a_req args)
             = ([AdminAccessCalled (slug_text (incomingUserSlug req))],
                Inl (Error ''Unauthorized''))"
    using assms by (simp add: accessCheck_def)
  from handler_access_error [OF this, of e st]
  show "buildFormStateHandler e args st
          = (NullResult,
             st\<lparr>events := events st
                  @ [AdminAccessCalled (slug_text (incomingUserSlug req)),
                     LoggerError (Error ''Unauthorized'')
                       ''There was an error building form state'']\<rparr>)"
    by (simp add: unauthorized_message)
next
  assume h: "truthy_str (incomingUserSlug req)
        \<and> collections (payload req) (slug_text (incomingUserSlug req)) = Some c
        \<and> access_admin c = None
        \<and> adminUserSlug req \<noteq> slug_text (incomingUserSlug req)"
  then have "accessCheck (a_req args) = ([], Inl (Error ''Unauthorized''))"
    using assms by (simp add: accessCheck_def)
  from handler_access_error [OF this, of e st]
  show "buildFormStateHandler e args st
          = (NullResult,
             st\<lparr>events := events st
                  @ [LoggerError (Error ''Unauthorized'')
                       ''There was an error building form state'']\<rparr>)"
    by (simp add: unauthorized_message)
next
  assume h: "\<not> truthy_str (incomingUserSlug req)
        \<and> payload_find (payload req) (adminUserSlug req) = Inr docs \<and> docs \<noteq> []"
  then have "accessCheck (a_req args)
             = ([FindCalled (adminUserSlug req)], Inl (Error ''Unauthorized''))"
    using assms by (simp add: accessCheck_def)
  from handler_access_error [OF this, of e st]
  show "buildFormStateHandler e args st
          = (NullResult,
             st\<lparr>events := events st
                  @ [FindCalled (adminUserSlug req),
                     LoggerError (Error ''Unauthorized'')
                       ''There was an error building form state'']\<rparr>)"
    by (simp add: unauthorized_message)
qed

theorem handler_unauthorized_returns_null_witness:
  "buildFormStateHandler example_env
      (example_args (example_request (Some ''editors'') []) ''posts'' None None) example_state
     = (NullResult,
        \<lparr>cachedFieldMap = None,
         events = [AdminAccessCalled ''editors'',
                   LoggerError (Error ''Unauthorized'')
                     ''There was an error building form state'']\<rparr>)
   \<and> buildFormStateHandler example_env
      (example_args (example_request (Some ''customers'') []) ''posts'' None None) example_state
     = (NullResult,
        \<lparr>cachedFieldMap = None,
         events = [LoggerError (Error ''Unauthorized'')
                     ''There was an error building form state'']\<rparr>)
   \<and> buildFormStateHandler example_env
      (example_args (example_request None [JObj [(''id'', JStr ''u1'')]]) ''posts'' None None)
      example_state
     = (NullResult,
        \<lparr>cachedFieldMap = None,
         events = [FindCalled ''users'',
                   LoggerError (Error ''Unauthorized'')
                     ''There was an error building form state'']\<rparr>)"
proof -
  let ?r1 = "example_request (Some ''editors'') []"
  let ?r2 = "example_request (Some ''customers'') []"
  let ?r3 = "example_request None [JObj [(''id'', JStr ''u1'')]]"
  have a1: "a_req (example_args ?r1 ''posts'' None None) = ?r1"
    and a2: "a_req (example_args ?r2 ''posts'' None None) = ?r2"
    and a3: "a_req (example_args ?r3 ''posts'' None None) = ?r3"
    by (simp_all add: example_args_def)
  note defs = example_request_def example_payload_def example_state_def
    incomingUserSlug_def adminUserSlug_def truthy_str_def slug_text_def
  from handler_unauthorized_returns_null
         [OF a1, where c = "\<lparr>access_admin = Some (\<lambda>r. Inr False), upload = False\<rparr>"
            and adminAccessFunction = "\<lambda>r. Inr False" and e = example_env
            and st = example_state]
  have c1: "buildFormStateHandler example_env (example_args ?r1 ''posts'' None None)
              example_state
            = (NullResult,
               \<lparr>cachedFieldMap = None,
                events = [AdminAccessCalled ''editors'',
                          LoggerError (Error ''Unauthorized'')
                            ''There was an error building form state'']\<rparr>)"
    by (simp add: defs)
  from handler_unauthorized_returns_null
         [OF a2, where c = "\<lparr>access_admin = None, upload = False\<rparr>"
            and e = example_env and st = example_state]
  have c2: "buildFormStateHandler example_env (example_args ?r2 ''posts'' None None)
              example_state
            = (NullResult,
               \<lparr>cachedFieldMap = None,
                events = [LoggerError (Error ''Unauthorized'')
                            ''There was an error building form state'']\<rparr>)"
    by (simp add: defs)
  from handler_unauthorized_returns_null
         [OF a3, where docs = "[JObj [(''id'', JStr ''u1'')]]"
            and e = example_env and st = example_state]
  have c3: "buildFormStateHandler example_env (example_args ?r3 ''posts'' None None)
              example_state
            = (NullResult,
               \<lparr>cachedFieldMap = None,
                events = [FindCalled ''users'',
                          LoggerError (Error ''Unauthorized'')
                            ''There was an error building form state'']\<rparr>)"
    by (simp add: defs)
  from c1 c2 c3 show ?thesis by simp
qed

text \<open>
  C9. A request without a user slug (no user, or a user without a collection). If
  \<open>find\<close> on the admin user collection returns at least one document, the handler
  returns \<open>null\<close>, and the calls it made are \<open>find\<close> and the logger only. If \<open>find\<close> returns
  no document, the handler calls \<open>buildFormState\<close> and returns its result. And
  \<open>buildFormState\<close> is among the calls of the handler only if \<open>find\<close> returned no document.
\<close>

theorem handler_no_user_only_first_user:
  assumes "a_req args = req" and "\<not> truthy_str (incomingUserSlug req)"
  shows
    "(payload_find (payload req) (adminUserSlug req) = Inr docs \<and> docs \<noteq> []
      \<longrightarrow> buildFormStateHandler e args st
          = (NullResult,
             st\<lparr>events := events st
                  @ [FindCalled (adminUserSlug req),
                     LoggerError (Error ''Unauthorized'')
                       ''There was an error building form state'']\<rparr>))
     \<and> (payload_find (payload req) (adminUserSlug req) = Inr []
      \<longrightarrow> events (snd (buildFormStateHandler e args st))
            = events st @ [FindCalled (adminUserSlug req), BuildFormStateCalled]
              @ (case fst (buildFormState e args (cachedFieldMap st)) of
                   Inr res \<Rightarrow> []
                 | Inl err \<Rightarrow> [LoggerError err ''There was an error building form state''])
          \<and> (\<forall>res. fst (buildFormState e args (cachedFieldMap st)) = Inr res
                \<longrightarrow> fst (buildFormStateHandler e args st) = SuccessResult res))
     \<and> (BuildFormStateCalled
          \<in> set (drop (length (events st)) (events (snd (buildFormStateHandler e args st))))
      \<longrightarrow> payload_find (payload req) (adminUserSlug req) = Inr [])"
proof (intro conjI impI)
  assume h: "payload_find (payload req) (adminUserSlug req) = Inr docs \<and> docs \<noteq> []"
  then have "accessCheck (a_req args)
             = ([FindCalled (adminUserSlug req)], Inl (Error ''Unauthorized''))"
    using assms by (simp add: accessCheck_def)
  from handler_access_error [OF this, of e st]
  show "buildFormStateHandler e args st
          = (NullResult,
             st\<lparr>events := events st
                  @ [FindCalled (adminUserSlug req),
                     LoggerError (Error ''Unauthorized'')
                       ''There was an error building form state'']\<rparr>)"
    by (simp add: unauthorized_message)
next
  assume h: "payload_find (payload req) (adminUserSlug req) = Inr []"
  then have ok: "accessCheck (a_req args) = ([FindCalled (adminUserSlug req)], Inr ())"
    using assms by (simp add: accessCheck_def)
  show "events (snd (buildFormStateHandler e args st))
            = events st @ [FindCalled (adminUserSlug req), BuildFormStateCalled]
              @ (case fst (buildFormState e args (cachedFieldMap st)) of
                   Inr res \<Rightarrow> []
                 | Inl err \<Rightarrow> [LoggerError err ''There was an error building form state''])"
    by (simp add: handler_access_ok [OF ok] split: sum.splits)
  show "\<forall>res. fst (buildFormState e args (cachedFieldMap st)) = Inr res
                \<longrightarrow> fst (buildFormStateHandler e args st) = SuccessResult res"
    by (simp add: handler_access_ok [OF ok])
next
  assume called: "BuildFormStateCalled
          \<in> set (drop (length (events st)) (events (snd (buildFormStateHandler e args st))))"
  show "payload_find (payload req) (adminUserSlug req) = Inr []"
  proof (cases "payload_find (payload req) (adminUserSlug req)")
    case (Inl err)
    then have "accessCheck (a_req args) = ([FindCalled (adminUserSlug req)], Inl err)"
      using assms by (simp add: accessCheck_def)
    from handler_access_error [OF this, of e st] called show ?thesis by simp
  next
    case (Inr docs)
    show ?thesis
    proof (cases docs)
      case Nil
      with Inr show ?thesis by simp
    next
      case (Cons d ds)
      with Inr have "accessCheck (a_req args)
             = ([FindCalled (adminUserSlug req)], Inl (Error ''Unauthorized''))"
        using assms by (simp add: accessCheck_def)
      from handler_access_error [OF this, of e st] called show ?thesis by simp
    qed
  qed
qed

theorem handler_no_user_only_first_user_witness:
  "buildFormStateHandler example_env
      (example_args (example_request None [JObj [(''id'', JStr ''u1'')]]) ''posts'' None None)
      example_state
     = (NullResult,
        \<lparr>cachedFieldMap = None,
         events = [FindCalled ''users'',
                   LoggerError (Error ''Unauthorized'')
                     ''There was an error building form state'']\<rparr>)
   \<and> events (snd (buildFormStateHandler example_env
                    (example_args (example_request None []) ''posts'' None None)
                    example_state))
     = [FindCalled ''users'', BuildFormStateCalled]"
proof -
  let ?r1 = "example_request None [JObj [(''id'', JStr ''u1'')]]"
  let ?r0 = "example_request None []"
  note defs = example_request_def example_payload_def example_state_def
    incomingUserSlug_def adminUserSlug_def truthy_str_def slug_text_def
  have a1: "a_req (example_args ?r1 ''posts'' None None) = ?r1"
    and a0: "a_req (example_args ?r0 ''posts'' None None) = ?r0"
    by (simp_all add: example_args_def)
  have n1: "\<not> truthy_str (incomingUserSlug ?r1)" and n0: "\<not> truthy_str (incomingUserSlug ?r0)"
    by (simp_all add: defs)
  have built: "\<exists>res. fst (buildFormState example_env (example_args ?r0 ''posts'' None None)
                            (cachedFieldMap example_state)) = Inr res"
    by (simp add: buildFormState_def getFieldSchemaMap_def Let_def schemaMapArgs_def
        schemaPathOf_def toFormStateArgs_def lockedStateOf_def lacksSubfields_def
        example_env_def example_args_def example_state_def
        js_or_def truthy_str_def slug_text_def)
  from handler_no_user_only_first_user
         [OF a1 n1, where docs = "[JObj [(''id'', JStr ''u1'')]]" and e = example_env
            and st = example_state]
  have c1: "buildFormStateHandler example_env (example_args ?r1 ''posts'' None None)
              example_state
            = (NullResult,
               \<lparr>cachedFieldMap = None,
                events = [FindCalled ''users'',
                          LoggerError (Error ''Unauthorized'')
                            ''There was an error building form state'']\<rparr>)"
    by (simp add: defs)
  from handler_no_user_only_first_user
         [OF a0 n0, where e = example_env and st = example_state] built
  have c0: "events (snd (buildFormStateHandler example_env
                    (example_args ?r0 ''posts'' None None) example_state))
            = [FindCalled ''users'', BuildFormStateCalled]"
    by (auto simp: defs)
  from c1 c0 show ?thesis by simp
qed

section \<open>The schema paths to render and the upload entry\<close>

lemma set_pushRequiresRender:
  "set (pushRequiresRender fs keys acc)
   = set acc \<union> {join_dot (fs_schemaPath fld) | fld key.
                   key \<in> set keys \<and> map_of fs key = Some fld \<and> requiresRender fld}"
proof (induction keys arbitrary: acc)
  case Nil
  show ?case by simp
next
  case (Cons key keys)
  show ?case
  proof (cases "map_of fs key")
    case None
    then show ?thesis using Cons.IH [of acc] by auto
  next
    case (Some fld)
    show ?thesis
    proof (cases "requiresRender fld")
      case True
      then show ?thesis
        using Some Cons.IH [of "acc @ [join_dot (fs_schemaPath fld)]"] by auto
    next
      case False
      then show ?thesis using Some Cons.IH [of acc] by auto
    qed
  qed
qed

lemma entries_of_keys:
  "(\<exists>key. key \<in> set (map fst fs) \<and> map_of fs key = Some fld) \<longleftrightarrow> fld \<in> ran (map_of fs)"
proof
  assume "\<exists>key. key \<in> set (map fst fs) \<and> map_of fs key = Some fld"
  then show "fld \<in> ran (map_of fs)" by (auto simp: ran_def)
next
  assume "fld \<in> ran (map_of fs)"
  then obtain key where k: "map_of fs key = Some fld" by (auto simp: ran_def)
  then have "(key, fld) \<in> set fs" by (rule map_of_SomeD)
  then have "key \<in> set (map fst fs)" by force
  with k show "\<exists>key. key \<in> set (map fst fs) \<and> map_of fs key = Some fld" by blast
qed

lemma set_schemaPathsToRender:
  "set (schemaPathsToRender fieldSchemaMap renderFields formState)
   = (if renderFields then fst ` set fieldSchemaMap
      else (case formState of
              Some fs \<Rightarrow> {join_dot (fs_schemaPath fld) | fld.
                            fld \<in> ran (map_of fs) \<and> requiresRender fld}
            | None \<Rightarrow> {}))"
proof (cases renderFields)
  case True
  then show ?thesis by (simp add: schemaPathsToRender_def)
next
  case False
  show ?thesis
  proof (cases formState)
    case None
    with False show ?thesis by (simp add: schemaPathsToRender_def)
  next
    case (Some fs)
    have "set (pushRequiresRender fs (map fst fs) [])
          = {join_dot (fs_schemaPath fld) | fld.
               (\<exists>key. key \<in> set (map fst fs) \<and> map_of fs key = Some fld) \<and> requiresRender fld}"
      unfolding set_pushRequiresRender by auto
    then have "set (pushRequiresRender fs (map fst fs) [])
          = {join_dot (fs_schemaPath fld) | fld. fld \<in> ran (map_of fs) \<and> requiresRender fld}"
      by (simp only: entries_of_keys)
    with False Some show ?thesis by (simp add: schemaPathsToRender_def)
  qed
qed

text \<open>
  C2. The schema paths \<open>buildFormState\<close> selects for rendering, as a set: with
  \<open>renderFields\<close> the keys of the schema map; otherwise the joined \<open>schemaPath\<close> of the
  entries of the incoming form state whose \<open>requiresRender\<close> is set (none when there is
  no incoming form state). Every call of \<open>buildFormState\<close> is one of four: it names
  neither a collection nor a global, or its schema path is not in the map
  \<open>getFieldSchemaMap\<close> returns, or the entry found has no subfields, and then it rejects
  before anything is rendered; or it hands this selection, made on the map
  \<open>getFieldSchemaMap\<close> returned, to \<open>fieldSchemasToFormState\<close> and to
  \<open>attachComponentsToFormState\<close>, whose results are its result.
\<close>

theorem schemaPathsToRender_scope:
  "set (schemaPathsToRender fieldSchemaMap (renderFieldsOf args) (a_formState args))
     = (if renderFieldsOf args then fst ` set fieldSchemaMap
        else (case a_formState args of
                Some fs \<Rightarrow> {join_dot (fs_schemaPath fld) | fld.
                              fld \<in> ran (map_of fs) \<and> requiresRender fld}
              | None \<Rightarrow> {}))
   \<and> f_schemaPathsToRender (toFormStateArgs e args fieldSchemaMap fieldOrEntityConfig)
     = schemaPathsToRender fieldSchemaMap (renderFieldsOf args) (a_formState args)
   \<and> t_schemaPathsToRender (attachArgs args fieldSchemaMap)
     = schemaPathsToRender fieldSchemaMap (renderFieldsOf args) (a_formState args)
   \<and> (\<not> truthy_str (a_collectionSlug args) \<and> \<not> truthy_str (a_globalSlug args)
      \<longrightarrow> buildFormState e args c
          = (Inl (Error ''Either collectionSlug or globalSlug must be provided''), c))
   \<and> ((truthy_str (a_collectionSlug args) \<or> truthy_str (a_globalSlug args))
       \<and> getFieldSchemaMap e (schemaMapArgs args) c = (fieldSchemaMap, c')
       \<and> map_of fieldSchemaMap (join_dot (schemaPathOf args)) = None
      \<longrightarrow> buildFormState e args c
          = (Inl (Error (''Could not find '' @ quoted (join_dot (schemaPathOf args))
                         @ '' in the fieldSchemaMap'')), c'))
   \<and> ((truthy_str (a_collectionSlug args) \<or> truthy_str (a_globalSlug args))
       \<and> getFieldSchemaMap e (schemaMapArgs args) c = (fieldSchemaMap, c')
       \<and> map_of fieldSchemaMap (join_dot (schemaPathOf args)) = Some fieldOrEntityConfig
       \<and> lacksSubfields fieldOrEntityConfig
      \<longrightarrow> buildFormState e args c
          = (Inl (Error (''The field found in fieldSchemaMap for ''
                         @ quoted (join_dot (schemaPathOf args))
                         @ '' does not contain any subfields.'')), c'))
   \<and> ((truthy_str (a_collectionSlug args) \<or> truthy_str (a_globalSlug args))
       \<and> getFieldSchemaMap e (schemaMapArgs args) c = (fieldSchemaMap, c')
       \<and> map_of fieldSchemaMap (join_dot (schemaPathOf args)) = Some fieldOrEntityConfig
       \<and> \<not> lacksSubfields fieldOrEntityConfig
      \<longrightarrow> buildFormState e args c
          = (case fieldSchemasToFormState e
                    (toFormStateArgs e args fieldSchemaMap fieldOrEntityConfig) of
               Inl err \<Rightarrow> (Inl err, c')
             | Inr formStateResult \<Rightarrow>
                 (case lockedStateOf e args of
                    Inl err \<Rightarrow> (Inl err, c')
                  | Inr lockedStateResult \<Rightarrow>
                      (Inr \<lparr>lockedState = lockedStateResult,
                            state =
                              attachComponentsToFormState e (attachArgs args fieldSchemaMap)
                                (maintainUploadState (payload (a_req args))
                                   (a_collectionSlug args) (a_formState args)
                                   formStateResult)\<rparr>,
                       c'))))"
proof (intro conjI impI)
  show "set (schemaPathsToRender fieldSchemaMap (renderFieldsOf args) (a_formState args))
     = (if renderFieldsOf args then fst ` set fieldSchemaMap
        else (case a_formState args of
                Some fs \<Rightarrow> {join_dot (fs_schemaPath fld) | fld.
                              fld \<in> ran (map_of fs) \<and> requiresRender fld}
              | None \<Rightarrow> {}))"
    by (rule set_schemaPathsToRender)
qed (auto simp: buildFormState_def toFormStateArgs_def attachArgs_def)

theorem schemaPathsToRender_scope_witness:
  "buildFormState example_echo_env
      ((example_args (example_request (Some ''users'') []) ''posts'' None None)
         \<lparr>a_renderFields := Some True\<rparr>)
      None
     = (Inr \<lparr>lockedState = None,
             state = [(''posts'', \<lparr>requiresRender = False, fs_schemaPath = [],
                                   fs_value = JNull, fs_rest = JObj []\<rparr>)]\<rparr>,
        Some [Some ''posts'' \<mapsto>
               [(''posts'',
                 EntryObject None (Some [EntryObject (Some ''text'') None (JStr ''title'')])
                   (JStr ''en''))]])
   \<and> buildFormState example_echo_env
      (example_args (example_request (Some ''users'') []) ''posts'' None
         (Some [(''title'', \<lparr>requiresRender = True, fs_schemaPath = [''posts'', ''title''],
                              fs_value = JStr ''a'', fs_rest = JObj []\<rparr>),
                (''body'', \<lparr>requiresRender = False, fs_schemaPath = [''posts'', ''body''],
                             fs_value = JStr ''b'', fs_rest = JObj []\<rparr>)]))
      None
     = (Inr \<lparr>lockedState = None,
             state = [(''posts.title'', \<lparr>requiresRender = False, fs_schemaPath = [],
                                         fs_value = JNull, fs_rest = JObj []\<rparr>)]\<rparr>,
        Some [Some ''posts'' \<mapsto>
               [(''posts'',
                 EntryObject None (Some [EntryObject (Some ''text'') None (JStr ''title'')])
                   (JStr ''en''))]])"
proof -
  let ?cfg = "EntryObject None (Some [EntryObject (Some ''text'') None (JStr ''title'')])
                (JStr ''en'')"
  let ?m = "[(''posts'', ?cfg)]"
  let ?c = "Some [Some ''posts'' \<mapsto> ?m]"
  let ?fs = "[(''title'', \<lparr>requiresRender = True, fs_schemaPath = [''posts'', ''title''],
                           fs_value = JStr ''a'', fs_rest = JObj []\<rparr>),
              (''body'', \<lparr>requiresRender = False, fs_schemaPath = [''posts'', ''body''],
                          fs_value = JStr ''b'', fs_rest = JObj []\<rparr>)]"
  let ?full = "(example_args (example_request (Some ''users'') []) ''posts'' None None)
                 \<lparr>a_renderFields := Some True\<rparr>"
  let ?incr = "example_args (example_request (Some ''users'') []) ''posts'' None (Some ?fs)"
  note defs = example_echo_env_def example_env_def example_args_def example_request_def
    example_payload_def js_or_def truthy_str_def slug_text_def
  have s1: "truthy_str (a_collectionSlug ?full) \<or> truthy_str (a_globalSlug ?full)"
    and s2: "truthy_str (a_collectionSlug ?incr) \<or> truthy_str (a_globalSlug ?incr)"
    by (simp_all add: example_args_def truthy_str_def)
  have g1: "getFieldSchemaMap example_echo_env (schemaMapArgs ?full) None = (?m, ?c)"
    and g2: "getFieldSchemaMap example_echo_env (schemaMapArgs ?incr) None = (?m, ?c)"
    by (simp_all add: getFieldSchemaMap_def Let_def schemaMapArgs_def defs)
  have l1: "map_of ?m (join_dot (schemaPathOf ?full)) = Some ?cfg"
    and l2: "map_of ?m (join_dot (schemaPathOf ?incr)) = Some ?cfg"
    by (simp_all add: schemaPathOf_def defs)
  have n: "\<not> lacksSubfields ?cfg" by (simp add: lacksSubfields_def)
  from schemaPathsToRender_scope [of ?m ?full example_echo_env ?cfg None ?c] s1 g1 l1 n
  have full: "buildFormState example_echo_env ?full None
              = (case fieldSchemasToFormState example_echo_env
                        (toFormStateArgs example_echo_env ?full ?m ?cfg) of
                   Inl err \<Rightarrow> (Inl err, ?c)
                 | Inr formStateResult \<Rightarrow>
                     (case lockedStateOf example_echo_env ?full of
                        Inl err \<Rightarrow> (Inl err, ?c)
                      | Inr lockedStateResult \<Rightarrow>
                          (Inr \<lparr>lockedState = lockedStateResult,
                                state =
                                  attachComponentsToFormState example_echo_env
                                    (attachArgs ?full ?m)
                                    (maintainUploadState (payload (a_req ?full))
                                       (a_collectionSlug ?full) (a_formState ?full)
                                       formStateResult)\<rparr>,
                           ?c)))"
    by blast
  from schemaPathsToRender_scope [of ?m ?incr example_echo_env ?cfg None ?c] s2 g2 l2 n
  have incr: "buildFormState example_echo_env ?incr None
              = (case fieldSchemasToFormState example_echo_env
                        (toFormStateArgs example_echo_env ?incr ?m ?cfg) of
                   Inl err \<Rightarrow> (Inl err, ?c)
                 | Inr formStateResult \<Rightarrow>
                     (case lockedStateOf example_echo_env ?incr of
                        Inl err \<Rightarrow> (Inl err, ?c)
                      | Inr lockedStateResult \<Rightarrow>
                          (Inr \<lparr>lockedState = lockedStateResult,
                                state =
                                  attachComponentsToFormState example_echo_env
                                    (attachArgs ?incr ?m)
                                    (maintainUploadState (payload (a_req ?incr))
                                       (a_collectionSlug ?incr) (a_formState ?incr)
                                       formStateResult)\<rparr>,
                           ?c)))"
    by blast
  have r1: "buildFormState example_echo_env ?full None
     = (Inr \<lparr>lockedState = None,
             state = [(''posts'', \<lparr>requiresRender = False, fs_schemaPath = [],
                                   fs_value = JNull, fs_rest = JObj []\<rparr>)]\<rparr>, ?c)"
    unfolding full
    by (simp add: toFormStateArgs_def lockedStateOf_def maintainUploadState_def
        schemaPathsToRender_def renderFieldsOf_def defs)
  have r2: "buildFormState example_echo_env ?incr None
     = (Inr \<lparr>lockedState = None,
             state = [(''posts.title'', \<lparr>requiresRender = False, fs_schemaPath = [],
                                         fs_value = JNull, fs_rest = JObj []\<rparr>)]\<rparr>, ?c)"
    unfolding incr
    by (simp add: toFormStateArgs_def lockedStateOf_def maintainUploadState_def
        schemaPathsToRender_def renderFieldsOf_def defs)
  from r1 r2 show ?thesis by (rule conjI)
qed

lemma map_of_assign_prop: "map_of (assign_prop k v ps) k = Some v"
  by (induction ps) auto

lemma buildFormState_success_state:
  assumes ok: "fst (buildFormState e args c) = Inr res"
  obtains m r where "state res
          = attachComponentsToFormState e (attachArgs args m)
              (maintainUploadState (payload (a_req args)) (a_collectionSlug args)
                 (a_formState args) r)"
  using ok
  by (auto simp: buildFormState_def split: prod.splits option.splits sum.splits if_splits)

text \<open>
  C10. When \<open>buildFormState\<close> returns a state for a collection whose configuration has
  \<open>upload\<close>, and the incoming form state has a \<open>file\<close> entry, the \<open>file\<close> entry of the
  state returned is the incoming one, not the one \<open>fieldSchemasToFormState\<close> computed.
  \<open>attachComponentsToFormState\<close> runs after the entry is carried over; the statement is
  for an \<open>attachComponentsToFormState\<close> that leaves the \<open>file\<close> entry as it is.
\<close>

theorem buildFormState_maintains_upload_file:
  assumes "fst (buildFormState e args c) = Inr res"
    and "truthy_str (a_collectionSlug args)"
    and "collections (payload (a_req args)) (slug_text (a_collectionSlug args)) = Some cc"
    and "upload cc"
    and "a_formState args = Some fs"
    and "map_of fs ''file'' = Some fileState"
    and "\<forall>targs s. map_of (attachComponentsToFormState e targs s) ''file'' = map_of s ''file''"
  shows "map_of (state res) ''file'' = Some fileState"
proof -
  have m: "\<And>r. map_of (maintainUploadState (payload (a_req args)) (a_collectionSlug args)
                     (a_formState args) r) ''file'' = Some fileState"
    using assms(2-6) by (simp add: maintainUploadState_def map_of_assign_prop)
  from assms(1) obtain m r where "state res
          = attachComponentsToFormState e (attachArgs args m)
              (maintainUploadState (payload (a_req args)) (a_collectionSlug args)
                 (a_formState args) r)"
    by (rule buildFormState_success_state)
  then show ?thesis using assms(7) m by simp
qed

theorem buildFormState_maintains_upload_file_witness:
  "map_of (state \<lparr>lockedState = None,
                   state = [(''file'', \<lparr>requiresRender = False,
                                        fs_schemaPath = [''media'', ''file''],
                                        fs_value = JStr ''photo.png'', fs_rest = JObj []\<rparr>),
                            (''title'', \<lparr>requiresRender = False,
                                         fs_schemaPath = [''media'', ''title''],
                                         fs_value = JStr ''t'', fs_rest = JObj []\<rparr>)]\<rparr>) ''file''
     = Some \<lparr>requiresRender = False, fs_schemaPath = [''media'', ''file''],
             fs_value = JStr ''photo.png'', fs_rest = JObj []\<rparr>
   \<and> fst (buildFormState example_env
           (example_args (example_request (Some ''users'') []) ''media'' None
              (Some [(''file'', \<lparr>requiresRender = False, fs_schemaPath = [''media'', ''file''],
                                 fs_value = JStr ''photo.png'', fs_rest = JObj []\<rparr>)]))
           None)
     = Inr \<lparr>lockedState = None,
            state = [(''file'', \<lparr>requiresRender = False,
                                 fs_schemaPath = [''media'', ''file''],
                                 fs_value = JStr ''photo.png'', fs_rest = JObj []\<rparr>),
                     (''title'', \<lparr>requiresRender = False,
                                  fs_schemaPath = [''media'', ''title''],
                                  fs_value = JStr ''t'', fs_rest = JObj []\<rparr>)]\<rparr>"
proof -
  let ?file = "\<lparr>requiresRender = False, fs_schemaPath = [''media'', ''file''],
                fs_value = JStr ''photo.png'', fs_rest = JObj []\<rparr>"
  let ?args = "example_args (example_request (Some ''users'') []) ''media'' None
                 (Some [(''file'', ?file)])"
  let ?res = "\<lparr>lockedState = None,
               state = [(''file'', ?file),
                        (''title'', \<lparr>requiresRender = False,
                                     fs_schemaPath = [''media'', ''title''],
                                     fs_value = JStr ''t'', fs_rest = JObj []\<rparr>)]\<rparr>"
  have h1: "fst (buildFormState example_env ?args None) = Inr ?res"
    by (simp add: buildFormState_def getFieldSchemaMap_def Let_def schemaMapArgs_def
        schemaPathOf_def toFormStateArgs_def lockedStateOf_def attachArgs_def
        maintainUploadState_def lacksSubfields_def
        example_env_def example_args_def example_request_def example_payload_def
        js_or_def truthy_str_def slug_text_def)
  have h2: "truthy_str (a_collectionSlug ?args)"
    by (simp add: example_args_def truthy_str_def)
  have h3: "collections (payload (a_req ?args)) (slug_text (a_collectionSlug ?args))
            = Some \<lparr>access_admin = None, upload = True\<rparr>"
    by (simp add: example_args_def example_request_def example_payload_def slug_text_def)
  have h4: "upload \<lparr>access_admin = None, upload = True\<rparr>" by simp
  have h5: "a_formState ?args = Some [(''file'', ?file)]" by (simp add: example_args_def)
  have h6: "map_of [(''file'', ?file)] ''file'' = Some ?file" by simp
  have h7: "\<forall>targs s. map_of (attachComponentsToFormState example_env targs s) ''file''
                       = map_of s ''file''"
    by (simp add: example_env_def)
  from buildFormState_maintains_upload_file [OF h1 h2 h3 h4 h5 h6 h7] h1
  show ?thesis by simp
qed

section \<open>The cache of field schema maps\<close>

lemma getFieldSchemaMap_keeps_entry:
  assumes "NODE_ENV e \<noteq> Some ''development''" and "c = Some mp" and "mp k = Some m"
  shows "\<exists>mp'. snd (getFieldSchemaMap e a c) = Some mp' \<and> mp' k = Some m"
  using assms by (auto simp: getFieldSchemaMap_def Let_def split: option.splits)

lemma cacheAfterCalls_keeps_entry:
  assumes "NODE_ENV e \<noteq> Some ''development''"
  shows "c = Some mp \<Longrightarrow> mp k = Some m
         \<Longrightarrow> \<exists>mp'. cacheAfterCalls e calls c = Some mp' \<and> mp' k = Some m"
proof (induction calls arbitrary: c mp)
  case Nil
  then show ?case by simp
next
  case (Cons a as)
  from getFieldSchemaMap_keeps_entry [OF assms Cons.prems, of a]
  obtain mp1 where "snd (getFieldSchemaMap e a c) = Some mp1" and "mp1 k = Some m" by blast
  from Cons.IH [OF this] show ?case by simp
qed

lemma getFieldSchemaMap_stores_entry:
  assumes "NODE_ENV e \<noteq> Some ''development''"
  shows "\<exists>mp. snd (getFieldSchemaMap e a c) = Some mp
           \<and> mp (js_or (g_collectionSlug a) (g_globalSlug a)) = Some (fst (getFieldSchemaMap e a c))"
  using assms by (auto simp: getFieldSchemaMap_def Let_def split: option.splits)

lemma getFieldSchemaMap_hit:
  assumes "NODE_ENV e \<noteq> Some ''development''" and "c = Some mp"
    and "mp (js_or (g_collectionSlug a) (g_globalSlug a)) = Some m"
  shows "getFieldSchemaMap e a c = (m, c)"
  using assms by (simp add: getFieldSchemaMap_def Let_def)

text \<open>
  C4, as the code has it. Outside development mode the cache is keyed by
  \<open>collectionSlug || globalSlug\<close> alone: a second call with the same key returns the map
  the first call returned and leaves the cache as it is, whatever its own locale
  context and configuration; a first call that finds no entry under its key returns
  the map built from its own arguments; and the same holds of a later call with that
  key after any calls in between.
\<close>

theorem getFieldSchemaMap_cached_by_slug:
  assumes "NODE_ENV e \<noteq> Some ''development''"
    and "js_or (g_collectionSlug a2) (g_globalSlug a2)
         = js_or (g_collectionSlug a1) (g_globalSlug a1)"
  shows "getFieldSchemaMap e a2 (snd (getFieldSchemaMap e a1 c))
         = (fst (getFieldSchemaMap e a1 c), snd (getFieldSchemaMap e a1 c))
       \<and> ((c = None \<or> (\<exists>m. c = Some m \<and> m (js_or (g_collectionSlug a1) (g_globalSlug a1)) = None))
          \<longrightarrow> fst (getFieldSchemaMap e a1 c) = buildFieldSchemaMap e a1)
       \<and> getFieldSchemaMap e a2 (cacheAfterCalls e calls (snd (getFieldSchemaMap e a1 c)))
         = (fst (getFieldSchemaMap e a1 c),
            cacheAfterCalls e calls (snd (getFieldSchemaMap e a1 c)))"
proof (intro conjI)
  show "getFieldSchemaMap e a2 (snd (getFieldSchemaMap e a1 c))
         = (fst (getFieldSchemaMap e a1 c), snd (getFieldSchemaMap e a1 c))"
    using assms by (auto simp: getFieldSchemaMap_def Let_def split: option.splits)
  show "(c = None \<or> (\<exists>m. c = Some m \<and> m (js_or (g_collectionSlug a1) (g_globalSlug a1)) = None))
          \<longrightarrow> fst (getFieldSchemaMap e a1 c) = buildFieldSchemaMap e a1"
    using assms by (auto simp: getFieldSchemaMap_def Let_def split: option.splits)
  from getFieldSchemaMap_stores_entry [OF assms(1), of a1 c]
  obtain mp where st: "snd (getFieldSchemaMap e a1 c) = Some mp"
    and en: "mp (js_or (g_collectionSlug a1) (g_globalSlug a1)) = Some (fst (getFieldSchemaMap e a1 c))"
    by blast
  from cacheAfterCalls_keeps_entry [OF assms(1) st en, of calls]
  obtain mp' where st': "cacheAfterCalls e calls (snd (getFieldSchemaMap e a1 c)) = Some mp'"
    and en': "mp' (js_or (g_collectionSlug a1) (g_globalSlug a1)) = Some (fst (getFieldSchemaMap e a1 c))"
    by blast
  from en' assms(2)
  have "mp' (js_or (g_collectionSlug a2) (g_globalSlug a2)) = Some (fst (getFieldSchemaMap e a1 c))"
    by simp
  from getFieldSchemaMap_hit [OF assms(1) st' this]
  show "getFieldSchemaMap e a2 (cacheAfterCalls e calls (snd (getFieldSchemaMap e a1 c)))
         = (fst (getFieldSchemaMap e a1 c),
            cacheAfterCalls e calls (snd (getFieldSchemaMap e a1 c)))"
    .
qed

theorem getFieldSchemaMap_cached_by_slug_witness:
  "getFieldSchemaMap example_env
      \<lparr>g_collectionSlug = Some ''posts'',
       g_config = \<lparr>admin_user = ''users'', config_rest = JNull\<rparr>,
       g_globalSlug = None, g_i18n = \<lparr>i18n_language = ''de''\<rparr>\<rparr>
      (snd (getFieldSchemaMap example_env
              \<lparr>g_collectionSlug = Some ''posts'',
               g_config = \<lparr>admin_user = ''users'', config_rest = JNull\<rparr>,
               g_globalSlug = None, g_i18n = \<lparr>i18n_language = ''en''\<rparr>\<rparr>
              None))
     = ([(''posts'',
          EntryObject None (Some [EntryObject (Some ''text'') None (JStr ''title'')])
            (JStr ''en''))],
        Some [Some ''posts'' \<mapsto>
               [(''posts'',
                 EntryObject None (Some [EntryObject (Some ''text'') None (JStr ''title'')])
                   (JStr ''en''))]])
   \<and> fst (getFieldSchemaMap example_env
      \<lparr>g_collectionSlug = Some ''posts'',
       g_config = \<lparr>admin_user = ''users'', config_rest = JNull\<rparr>,
       g_globalSlug = None, g_i18n = \<lparr>i18n_language = ''de''\<rparr>\<rparr>
      (cacheAfterCalls example_env
         [\<lparr>g_collectionSlug = None,
           g_config = \<lparr>admin_user = ''users'', config_rest = JNull\<rparr>,
           g_globalSlug = Some ''settings'', g_i18n = \<lparr>i18n_language = ''de''\<rparr>\<rparr>]
         (snd (getFieldSchemaMap example_env
                 \<lparr>g_collectionSlug = Some ''posts'',
                  g_config = \<lparr>admin_user = ''users'', config_rest = JNull\<rparr>,
                  g_globalSlug = None, g_i18n = \<lparr>i18n_language = ''en''\<rparr>\<rparr>
                 None))))
     = [(''posts'',
         EntryObject None (Some [EntryObject (Some ''text'') None (JStr ''title'')])
           (JStr ''en''))]"
proof -
  let ?en = "\<lparr>g_collectionSlug = Some ''posts'',
               g_config = \<lparr>admin_user = ''users'', config_rest = JNull\<rparr>,
               g_globalSlug = None, g_i18n = \<lparr>i18n_language = ''en''\<rparr>\<rparr>"
  let ?de = "\<lparr>g_collectionSlug = Some ''posts'',
               g_config = \<lparr>admin_user = ''users'', config_rest = JNull\<rparr>,
               g_globalSlug = None, g_i18n = \<lparr>i18n_language = ''de''\<rparr>\<rparr>"
  let ?other = "\<lparr>g_collectionSlug = None,
               g_config = \<lparr>admin_user = ''users'', config_rest = JNull\<rparr>,
               g_globalSlug = Some ''settings'', g_i18n = \<lparr>i18n_language = ''de''\<rparr>\<rparr>"
  have h1: "NODE_ENV example_env \<noteq> Some ''development''"
    by (simp add: example_env_def)
  have h2: "js_or (g_collectionSlug ?de) (g_globalSlug ?de)
            = js_or (g_collectionSlug ?en) (g_globalSlug ?en)"
    by simp
  have first: "getFieldSchemaMap example_env ?en None
     = ([(''posts'',
          EntryObject None (Some [EntryObject (Some ''text'') None (JStr ''title'')])
            (JStr ''en''))],
        Some [Some ''posts'' \<mapsto>
               [(''posts'',
                 EntryObject None (Some [EntryObject (Some ''text'') None (JStr ''title'')])
                   (JStr ''en''))]])"
    by (simp add: getFieldSchemaMap_def Let_def example_env_def js_or_def truthy_str_def
        slug_text_def)
  note inst = getFieldSchemaMap_cached_by_slug [OF h1 h2, where c = None and calls = "[?other]"]
  from inst have a: "getFieldSchemaMap example_env ?de (snd (getFieldSchemaMap example_env ?en None))
     = (fst (getFieldSchemaMap example_env ?en None), snd (getFieldSchemaMap example_env ?en None))"
    by (rule conjunct1)
  from inst have b: "fst (getFieldSchemaMap example_env ?de
          (cacheAfterCalls example_env [?other] (snd (getFieldSchemaMap example_env ?en None))))
     = fst (getFieldSchemaMap example_env ?en None)"
    by simp
  from a b show ?thesis by (simp only: first fst_conv snd_conv)
qed

text \<open>
  C4 as stated fails: in production, after a call for the collection \<open>posts\<close> with the
  locale context \<open>en\<close>, a call for \<open>posts\<close> with the locale context \<open>de\<close> returns the map
  built for \<open>en\<close>, which is not the map \<open>buildFieldSchemaMap\<close> builds for \<open>de\<close>.
\<close>

theorem getFieldSchemaMap_locale_counterexample:
  "fst (getFieldSchemaMap
          \<lparr>NODE_ENV = Some ''production'',
           buildFieldSchemaMap =
             (\<lambda>a. [(slug_text (g_collectionSlug a),
                     EntryObject None (Some []) (JStr (i18n_language (g_i18n a))))]),
           reduceFieldsToValues = (\<lambda>fs b. JNull),
           fieldSchemasToFormState = (\<lambda>a. Inr []),
           handleFormStateLocking = (\<lambda>a. Inr None),
           attachComponentsToFormState = (\<lambda>a fs. fs),
           formatErrors = (\<lambda>err. JStr (err_message err))\<rparr>
          \<lparr>g_collectionSlug = Some ''posts'',
           g_config = \<lparr>admin_user = ''users'', config_rest = JNull\<rparr>,
           g_globalSlug = None, g_i18n = \<lparr>i18n_language = ''de''\<rparr>\<rparr>
          (snd (getFieldSchemaMap
                  \<lparr>NODE_ENV = Some ''production'',
                   buildFieldSchemaMap =
                     (\<lambda>a. [(slug_text (g_collectionSlug a),
                             EntryObject None (Some []) (JStr (i18n_language (g_i18n a))))]),
                   reduceFieldsToValues = (\<lambda>fs b. JNull),
                   fieldSchemasToFormState = (\<lambda>a. Inr []),
                   handleFormStateLocking = (\<lambda>a. Inr None),
                   attachComponentsToFormState = (\<lambda>a fs. fs),
                   formatErrors = (\<lambda>err. JStr (err_message err))\<rparr>
                  \<lparr>g_collectionSlug = Some ''posts'',
                   g_config = \<lparr>admin_user = ''users'', config_rest = JNull\<rparr>,
                   g_globalSlug = None, g_i18n = \<lparr>i18n_language = ''en''\<rparr>\<rparr>
                  None)))
     = [(''posts'', EntryObject None (Some []) (JStr ''en''))]
   \<and> buildFieldSchemaMap
          \<lparr>NODE_ENV = Some ''production'',
           buildFieldSchemaMap =
             (\<lambda>a. [(slug_text (g_collectionSlug a),
                     EntryObject None (Some []) (JStr (i18n_language (g_i18n a))))]),
           reduceFieldsToValues = (\<lambda>fs b. JNull),
           fieldSchemasToFormState = (\<lambda>a. Inr []),
           handleFormStateLocking = (\<lambda>a. Inr None),
           attachComponentsToFormState = (\<lambda>a fs. fs),
           formatErrors = (\<lambda>err. JStr (err_message err))\<rparr>
          \<lparr>g_collectionSlug = Some ''posts'',
           g_config = \<lparr>admin_user = ''users'', config_rest = JNull\<rparr>,
           g_globalSlug = None, g_i18n = \<lparr>i18n_language = ''de''\<rparr>\<rparr>
     = [(''posts'', EntryObject None (Some []) (JStr ''de''))]"
  by (simp add: getFieldSchemaMap_def Let_def js_or_def truthy_str_def slug_text_def)

section \<open>Rows of the blocks field\<close>

text \<open>
  C5. Three rows \<open>a\<close>, \<open>b\<close>, \<open>c\<close> and \<open>addRow(0, 'text')\<close>: the data handed to
  \<open>addFieldRow\<close> has the new row last, after \<open>c\<close>. Inserting at index 0, or at index 1
  (after row 0, where the component then scrolls to), gives another list.
\<close>

theorem addRow_appends_not_inserts:
  "addRow
     \<lparr>field = \<lparr>name = ''layout'', admin_readOnly = False, maxRows = None,
               minRowsProp = None, required = None\<rparr>,
      path = ''layout'', schemaPath = [''pages'', ''layout''], readOnly = False,
      validate = None\<rparr>
     \<lparr>localeCode = ''en'', localization = None,
      rows = [\<lparr>row_id = ''a'', blockType = ''text''\<rparr>, \<lparr>row_id = ''b'', blockType = ''text''\<rparr>,
              \<lparr>row_id = ''c'', blockType = ''text''\<rparr>],
      formProcessing = False, formInitializing = False,
      getDataByPath = (\<lambda>p. JArr [JStr ''a'', JStr ''b'', JStr ''c'']),
      addFieldRow = (\<lambda>a. None)\<rparr>
     ''n'' 0 ''text''
   = Inr [AddFieldRow
            \<lparr>afr_data = JObj [(''layout'',
                 JArr [JStr ''a'', JStr ''b'', JStr ''c'',
                       JObj [(''id'', JStr ''n''), (''blockType'', JStr ''text'')]])],
             afr_path = ''layout'', afr_schemaPath = [''pages'', ''layout'']\<rparr>,
          SetModified True,
          ScrollToID ''layout-row-1'']
   \<and> [JStr ''a'', JStr ''b'', JStr ''c'',
        JObj [(''id'', JStr ''n''), (''blockType'', JStr ''text'')]]
      \<noteq> spec_insertAt 0 (JObj [(''id'', JStr ''n''), (''blockType'', JStr ''text'')])
           [JStr ''a'', JStr ''b'', JStr ''c'']
   \<and> [JStr ''a'', JStr ''b'', JStr ''c'',
        JObj [(''id'', JStr ''n''), (''blockType'', JStr ''text'')]]
      \<noteq> spec_insertAt 1 (JObj [(''id'', JStr ''n''), (''blockType'', JStr ''text'')])
           [JStr ''a'', JStr ''b'', JStr ''c'']"
  by (simp add: addRow_def spread_def spec_insertAt_def show_nat.simps)

text \<open>
  C6, as the code has it. \<open>addRow\<close> checks no row count. With the rows at \<open>maxRows\<close>
  (\<open>hasMaxRows\<close>), iterable current data and an \<open>addFieldRow\<close> that resolves, \<open>addRow\<close>
  calls \<open>addFieldRow\<close> with the new row appended, marks the form modified and scrolls;
  it signals no error. What \<open>hasMaxRows\<close> does is hide the controls that add a row.
\<close>

theorem addRow_no_maxRows_check:
  assumes "hasMaxRows props ctx"
    and "spread (getDataByPath ctx (path props)) = Inr items"
    and "addFieldRow ctx
           \<lparr>afr_data = JObj [(name (field props),
               JArr (items @ [JObj [(''id'', JStr uuid), (''blockType'', JStr bt)]]))],
            afr_path = path props, afr_schemaPath = schemaPath props\<rparr> = None"
  shows "addRow props ctx uuid rowIndex bt
         = Inr [AddFieldRow
                  \<lparr>afr_data = JObj [(name (field props),
                     JArr (items @ [JObj [(''id'', JStr uuid), (''blockType'', JStr bt)]]))],
                   afr_path = path props, afr_schemaPath = schemaPath props\<rparr>,
                SetModified True,
                ScrollToID (path props @ ''-row-'' @ show_nat (rowIndex + 1))]
         \<and> \<not> showAddRowControls props ctx"
  using assms by (simp add: addRow_def showAddRowControls_def)

theorem addRow_no_maxRows_check_witness:
  "hasMaxRows
     \<lparr>field = \<lparr>name = ''layout'', admin_readOnly = False, maxRows = Some 1,
               minRowsProp = None, required = None\<rparr>,
      path = ''layout'', schemaPath = [''pages'', ''layout''], readOnly = False,
      validate = None\<rparr>
     \<lparr>localeCode = ''en'', localization = None,
      rows = [\<lparr>row_id = ''a'', blockType = ''text''\<rparr>],
      formProcessing = False, formInitializing = False,
      getDataByPath = (\<lambda>p. JArr [JStr ''a'']),
      addFieldRow = (\<lambda>a. None)\<rparr>
   \<and> addRow
     \<lparr>field = \<lparr>name = ''layout'', admin_readOnly = False, maxRows = Some 1,
               minRowsProp = None, required = None\<rparr>,
      path = ''layout'', schemaPath = [''pages'', ''layout''], readOnly = False,
      validate = None\<rparr>
     \<lparr>localeCode = ''en'', localization = None,
      rows = [\<lparr>row_id = ''a'', blockType = ''text''\<rparr>],
      formProcessing = False, formInitializing = False,
      getDataByPath = (\<lambda>p. JArr [JStr ''a'']),
      addFieldRow = (\<lambda>a. None)\<rparr>
     ''n'' 1 ''text''
   = Inr [AddFieldRow
            \<lparr>afr_data = JObj [(''layout'',
                 JArr [JStr ''a'', JObj [(''id'', JStr ''n''), (''blockType'', JStr ''text'')]])],
             afr_path = ''layout'', afr_schemaPath = [''pages'', ''layout'']\<rparr>,
          SetModified True,
          ScrollToID ''layout-row-2'']"
proof -
  let ?P = "\<lparr>field = \<lparr>name = ''layout'', admin_readOnly = False, maxRows = Some 1,
               minRowsProp = None, required = None\<rparr>,
      path = ''layout'', schemaPath = [''pages'', ''layout''], readOnly = False,
      validate = None\<rparr>"
  let ?C = "\<lparr>localeCode = ''en'', localization = None,
      rows = [\<lparr>row_id = ''a'', blockType = ''text''\<rparr>],
      formProcessing = False, formInitializing = False,
      getDataByPath = (\<lambda>p. JArr [JStr ''a'']),
      addFieldRow = (\<lambda>a. None)\<rparr>"
  have h1: "hasMaxRows ?P ?C" by (simp add: hasMaxRows_def)
  have h2: "spread (getDataByPath ?C (path ?P)) = Inr [JStr ''a'']" by (simp add: spread_def)
  have h3: "addFieldRow ?C
           \<lparr>afr_data = JObj [(name (field ?P),
               JArr ([JStr ''a''] @ [JObj [(''id'', JStr ''n''), (''blockType'', JStr ''text'')]]))],
            afr_path = path ?P, afr_schemaPath = schemaPath ?P\<rparr> = None" by simp
  from addRow_no_maxRows_check [OF h1 h2 h3, of 1] h1
  show ?thesis by (simp add: show_nat.simps)
qed

text \<open>
  C6 as stated fails: a field with \<open>maxRows = 2\<close> and two rows, and \<open>addRow(2, 'text')\<close>:
  no error is signalled, and \<open>addFieldRow\<close> is called with three rows.
\<close>

theorem addRow_at_maxRows_counterexample:
  "length (rows
     \<lparr>localeCode = ''en'', localization = None,
      rows = [\<lparr>row_id = ''a'', blockType = ''text''\<rparr>, \<lparr>row_id = ''b'', blockType = ''text''\<rparr>],
      formProcessing = False, formInitializing = False,
      getDataByPath = (\<lambda>p. JArr [JStr ''a'', JStr ''b'']),
      addFieldRow = (\<lambda>a. None)\<rparr>) = 2
   \<and> addRow
     \<lparr>field = \<lparr>name = ''layout'', admin_readOnly = False, maxRows = Some 2,
               minRowsProp = None, required = None\<rparr>,
      path = ''layout'', schemaPath = [''pages'', ''layout''], readOnly = False,
      validate = None\<rparr>
     \<lparr>localeCode = ''en'', localization = None,
      rows = [\<lparr>row_id = ''a'', blockType = ''text''\<rparr>, \<lparr>row_id = ''b'', blockType = ''text''\<rparr>],
      formProcessing = False, formInitializing = False,
      getDataByPath = (\<lambda>p. JArr [JStr ''a'', JStr ''b'']),
      addFieldRow = (\<lambda>a. None)\<rparr>
     ''n'' 2 ''text''
   = Inr [AddFieldRow
            \<lparr>afr_data = JObj [(''layout'',
                 JArr [JStr ''a'', JStr ''b'',
                       JObj [(''id'', JStr ''n''), (''blockType'', JStr ''text'')]])],
             afr_path = ''layout'', afr_schemaPath = [''pages'', ''layout'']\<rparr>,
          SetModified True,
          ScrollToID ''layout-row-3'']"
  by (simp add: addRow_def spread_def show_nat.simps)

section \<open>Validation of the blocks field\<close>

text \<open>
  C7. A blocks field configured with \<open>minRows = 3\<close>, \<open>maxRows = 5\<close> and \<open>required\<close>: the
  validation function receives \<open>maxRows\<close> and \<open>required\<close> as configured, but it receives
  \<open>minRows = 1\<close>, not the configured 3. A validation function that rejects a row count
  below the \<open>minRows\<close> it is given therefore accepts two rows.
\<close>

theorem blocks_minRows_not_passed_through:
  "validateOptions
       \<lparr>name = ''layout'', admin_readOnly = False, maxRows = Some 5, minRowsProp = Some 3,
        required = Some True\<rparr>
       \<lparr>vo_maxRows = None, vo_minRows = None, vo_required = None, vo_rest = JObj []\<rparr>
     = \<lparr>vo_maxRows = Some 5, vo_minRows = Some 1, vo_required = Some True, vo_rest = JObj []\<rparr>
   \<and> memoizedValidate
       \<lparr>field = \<lparr>name = ''layout'', admin_readOnly = False, maxRows = Some 5,
                 minRowsProp = Some 3, required = Some True\<rparr>,
        path = ''layout'', schemaPath = [''pages'', ''layout''], readOnly = False,
        validate = Some (\<lambda>v opts.
                     case (v, vo_minRows opts) of
                       (JNum n, Some m) \<Rightarrow>
                          if n < int m then VMessage ''requires more rows'' else VTrue
                     | _ \<Rightarrow> VTrue)\<rparr>
       \<lparr>localeCode = ''en'', localization = None, rows = [], formProcessing = False,
        formInitializing = False, getDataByPath = (\<lambda>p. JArr []), addFieldRow = (\<lambda>a. None)\<rparr>
       (JNum 2)
       \<lparr>vo_maxRows = None, vo_minRows = None, vo_required = None, vo_rest = JObj []\<rparr>
     = Some VTrue"
  by (simp add: validateOptions_def minRows_def memoizedValidate_def editingDefaultLocale_def)

text \<open>
  C8. The validation wrapper treats \<open>null\<close> differently by locale. With localization and
  fallback configured and a locale other than the default one being edited, a \<open>null\<close>
  value is valid (\<open>true\<close>) whatever \<open>required\<close>, \<open>minRows\<close> and the validation function are.
  When the default locale is being edited (\<open>editingDefaultLocale\<close>, which with fallback
  configured means the locale code is \<open>defaultLocale || 'en'\<close>), \<open>null\<close> gets no exemption:
  the result is the underlying validation function's result on \<open>null\<close> with the
  component's options (and \<open>undefined\<close> when there is no validation function).
\<close>

theorem blocks_validate_null_locale_asymmetry:
  "(localization ctx = Some l \<and> fallback l \<and> localeCode ctx \<noteq> defaultLocaleCode l
      \<longrightarrow> memoizedValidate props ctx JNull options = Some VTrue)
   \<and> (localization ctx = Some l \<and> fallback l
      \<longrightarrow> (editingDefaultLocale ctx \<longleftrightarrow> localeCode ctx = defaultLocaleCode l))
   \<and> (editingDefaultLocale ctx
      \<longrightarrow> memoizedValidate props ctx JNull options
          = (case validate props of
               Some vf \<Rightarrow> Some (vf JNull (validateOptions (field props) options))
             | None \<Rightarrow> None))"
  by (simp add: memoizedValidate_def editingDefaultLocale_def)

theorem blocks_validate_null_locale_asymmetry_witness:
  "memoizedValidate
       \<lparr>field = \<lparr>name = ''layout'', admin_readOnly = False, maxRows = None,
                 minRowsProp = Some 1, required = Some True\<rparr>,
        path = ''layout'', schemaPath = [''pages'', ''layout''], readOnly = False,
        validate = Some (\<lambda>v opts. if v = JNull then VMessage ''required'' else VTrue)\<rparr>
       \<lparr>localeCode = ''de'',
        localization = Some \<lparr>fallback = True, defaultLocale = Some ''en''\<rparr>,
        rows = [], formProcessing = False, formInitializing = False,
        getDataByPath = (\<lambda>p. JNull), addFieldRow = (\<lambda>a. None)\<rparr>
       JNull
       \<lparr>vo_maxRows = None, vo_minRows = None, vo_required = None, vo_rest = JObj []\<rparr>
     = Some VTrue
   \<and> memoizedValidate
       \<lparr>field = \<lparr>name = ''layout'', admin_readOnly = False, maxRows = None,
                 minRowsProp = Some 1, required = Some True\<rparr>,
        path = ''layout'', schemaPath = [''pages'', ''layout''], readOnly = False,
        validate = Some (\<lambda>v opts. if v = JNull then VMessage ''required'' else VTrue)\<rparr>
       \<lparr>localeCode = ''en'',
        localization = Some \<lparr>fallback = True, defaultLocale = Some ''en''\<rparr>,
        rows = [], formProcessing = False, formInitializing = False,
        getDataByPath = (\<lambda>p. JNull), addFieldRow = (\<lambda>a. None)\<rparr>
       JNull
       \<lparr>vo_maxRows = None, vo_minRows = None, vo_required = None, vo_rest = JObj []\<rparr>
     = Some (VMessage ''required'')"
  using
    blocks_validate_null_locale_asymmetry
      [of "\<lparr>localeCode = ''de'',
            localization = Some \<lparr>fallback = True, defaultLocale = Some ''en''\<rparr>,
            rows = [], formProcessing = False, formInitializing = False,
            getDataByPath = (\<lambda>p. JNull), addFieldRow = (\<lambda>a. None)\<rparr>"
          "\<lparr>fallback = True, defaultLocale = Some ''en''\<rparr>"]
    blocks_validate_null_locale_asymmetry
      [of "\<lparr>localeCode = ''en'',
            localization = Some \<lparr>fallback = True, defaultLocale = Some ''en''\<rparr>,
            rows = [], formProcessing = False, formInitializing = False,
            getDataByPath = (\<lambda>p. JNull), addFieldRow = (\<lambda>a. None)\<rparr>"
          "\<lparr>fallback = True, defaultLocale = Some ''en''\<rparr>"]
  by (simp add: defaultLocaleCode_def)

end
